theory Spec2Isabelle
  imports Complex_Main
begin

section \<open>Python values and helpers\<close>

text \<open>
  Timestamps are the values of \<^verbatim>\<open>time.time()\<close>, in seconds. They are modelled as
  real numbers: the rounding of Python floats is not part of the model.
\<close>

type_synonym time = real

text \<open>
  A value returned by the XML-RPC endpoint: a string, a number (XML-RPC int or double)
  or a list. The source converts these with \<^verbatim>\<open>float\<close>, \<^verbatim>\<open>int\<close>, \<^verbatim>\<open>bool\<close> and
  tests them for truthiness.
\<close>

datatype xval = XStr string | XNum real | XList "xval list"

text \<open>
  The remote procedures of the CAT endpoint (\<^verbatim>\<open>self.proxy.rig.*\<close>) with their
  arguments. \<^verbatim>\<open>set_vfo\<close> and \<^verbatim>\<open>set_bw\<close> carry \<^verbatim>\<open>float(n)\<close> of an integer
  \<open>n\<close>; the model carries \<open>n\<close> itself.
\<close>

datatype rpc =
    Get_xcvr
  | Get_vfo
  | Set_vfo int
  | Get_mode
  | Set_mode string
  | Get_bw
  | Set_bw int
  | Get_power
  | Set_power real
  | Get_ptt
  | Set_ptt int

text \<open>The methods of \<^verbatim>\<open>RigControl\<close> (the Gateway) that callers invoke.\<close>

datatype gw_call =
    Call_connect
  | Call_disconnect
  | Call_get_frequency
  | Call_set_frequency int
  | Call_get_mode
  | Call_set_mode string
  | Call_get_bandwidth
  | Call_set_bandwidth int
  | Call_get_power
  | Call_set_power real
  | Call_get_ptt
  | Call_set_ptt bool

text \<open>
  The commands \<^verbatim>\<open>SDRControl\<close> writes to the display socket: \<^verbatim>\<open>f\<close>,
  \<^verbatim>\<open>F <hz>\<close> and \<^verbatim>\<open>M <mode>\<close>. The constructor stands for the formatted line.
\<close>

datatype sdr_cmd = Sdr_f | Sdr_F int | Sdr_M xval

text \<open>
  What the program does to the outside, in order. \<open>Invoke\<close> marks the entry of a Gateway
  method. \<open>Request r t g\<close> is the remote call \<open>r\<close> handed to the XML-RPC proxy at time
  \<open>t\<close>; \<open>g\<close> tells whether it went through \<^verbatim>\<open>_safe_call\<close>, that is, with the
  class-level lock held and the rate limit applied. \<open>Display c\<close> is a command written to
  the display socket.
\<close>

datatype event =
    Invoke gw_call
  | Request rpc time bool
  | Display sdr_cmd

text \<open>
  The process-wide state: the clock, the class attribute
  \<^verbatim>\<open>RigControl._last_request_time\<close> (initially \<open>0.0\<close>) and the events so far.
\<close>

record world =
  clock :: time
  last_request_time :: time
  trace :: "event list"

text \<open>
  Everything outside the program. \<open>endpoint\<close> answers a remote call, given the events so
  far: how long the call takes and what it returns (\<open>None\<close> when the proxy raises).
  \<open>display\<close> answers a command on the display socket with the text received (\<open>None\<close>
  when the socket raises). \<open>float_of_str\<close> and \<open>int_of_str\<close> are Python's
  \<^verbatim>\<open>float(s)\<close> and \<^verbatim>\<open>int(s)\<close> on a string (\<open>None\<close> when they raise).
\<close>

text \<open>
  A Python float: a finite number (its rounding is not modelled), an infinity or a NaN.
  \<^verbatim>\<open>float('inf')\<close> and \<^verbatim>\<open>float('nan')\<close> return such values; \<^verbatim>\<open>int\<close> raises on
  them.
\<close>

datatype pyfloat = Fin real | PosInf | NegInf | NaN

record env =
  endpoint :: "event list \<Rightarrow> rpc \<Rightarrow> time \<times> xval option"
  display :: "event list \<Rightarrow> sdr_cmd \<Rightarrow> string option"
  float_of_str :: "string \<Rightarrow> pyfloat option"
  int_of_str :: "string \<Rightarrow> int option"

text \<open>\<^verbatim>\<open>str(n)\<close> of an integer: its decimal digits, with a minus sign when negative.\<close>

definition digit_char :: "nat \<Rightarrow> char" where
  "digit_char d = ''0123456789'' ! (d mod 10)"

function str_of_nat :: "nat \<Rightarrow> string" where
  "str_of_nat n =
     (if n < 10 then [digit_char n] else str_of_nat (n div 10) @ [digit_char (n mod 10)])"
  by pat_completeness auto
termination
  by (relation "measure id") auto

declare str_of_nat.simps [simp del]

definition py_str_int :: "int \<Rightarrow> string" where
  "py_str_int i = (if i < 0 then CHR ''-'' # str_of_nat (nat (- i)) else str_of_nat (nat i))"

text \<open>\<^verbatim>\<open>int(x)\<close> of a float truncates towards zero.\<close>

definition py_trunc :: "real \<Rightarrow> int" where
  "py_trunc r = (if 0 \<le> r then \<lfloor>r\<rfloor> else \<lceil>r\<rceil>)"

text \<open>
  The finite doubles end at \<open>2^1024 - 2^971\<close>; a number rounds beyond them from the
  midpoint \<open>2^1024 - 2^970\<close> on.
\<close>

definition double_overflows :: "real \<Rightarrow> bool" where
  "double_overflows r = (2 ^ 1024 - 2 ^ 970 \<le> \<bar>r\<bar>)"

text \<open>
  \<^verbatim>\<open>float(v)\<close>. A string whose number is beyond the doubles reads as an infinity; an
  XML-RPC number is a double, or an integer, for which \<^verbatim>\<open>float\<close> raises
  \<^verbatim>\<open>OverflowError\<close> when it is beyond the doubles; a list raises \<^verbatim>\<open>TypeError\<close>.
\<close>

fun py_float :: "env \<Rightarrow> xval \<Rightarrow> pyfloat option" where
  "py_float e (XStr s) =
     (case float_of_str e s of
        Some (Fin r) \<Rightarrow>
          Some (if double_overflows r then (if 0 < r then PosInf else NegInf) else Fin r)
      | x \<Rightarrow> x)"
| "py_float e (XNum r) = (if double_overflows r then None else Some (Fin r))"
| "py_float e (XList vs) = None"

text \<open>
  \<^verbatim>\<open>int(x)\<close> of a float: \<^verbatim>\<open>OverflowError\<close> on an infinity, \<^verbatim>\<open>ValueError\<close> on a
  NaN.
\<close>

fun py_int_of_float :: "pyfloat \<Rightarrow> int option" where
  "py_int_of_float (Fin r) = Some (py_trunc r)"
| "py_int_of_float x = None"

text \<open>\<^verbatim>\<open>int(float(v))\<close>.\<close>

definition py_int_float :: "env \<Rightarrow> xval \<Rightarrow> int option" where
  "py_int_float e v = (case py_float e v of None \<Rightarrow> None | Some x \<Rightarrow> py_int_of_float x)"

text \<open>
  \<^verbatim>\<open>float(n)\<close> of an integer raises \<^verbatim>\<open>OverflowError\<close> when \<open>n\<close> rounds (to nearest,
  ties to even) beyond the largest double \<open>2^1024 - 2^971\<close>, that is, from the midpoint
  \<open>2^1024 - 2^970\<close> on.
\<close>

definition float_overflows :: "int \<Rightarrow> bool" where
  "float_overflows n = double_overflows (of_int n)"

text \<open>\<^verbatim>\<open>int(v)\<close>.\<close>

fun py_int :: "env \<Rightarrow> xval \<Rightarrow> int option" where
  "py_int e (XStr s) = int_of_str e s"
| "py_int e (XNum r) = Some (py_trunc r)"
| "py_int e (XList vs) = None"

text \<open>Truthiness, as in \<^verbatim>\<open>if mode:\<close>.\<close>

fun truthy :: "xval \<Rightarrow> bool" where
  "truthy (XStr s) = (s \<noteq> [])"
| "truthy (XNum r) = (r \<noteq> 0)"
| "truthy (XList vs) = (vs \<noteq> [])"

text \<open>
  \<^verbatim>\<open>str.upper()\<close>. Strings are lists of 8-bit characters, and the bridge decodes its
  input as ASCII. The ASCII letters are upper-cased; any other character is left as it
  is, where Python would turn it into a character outside ASCII (or a sharp s into
  \<^verbatim>\<open>SS\<close>): no string of the mode tables arises that way, in Python or here.
\<close>

definition upper_char :: "char \<Rightarrow> char" where
  "upper_char c =
     (case map_of (zip ''abcdefghijklmnopqrstuvwxyz'' ''ABCDEFGHIJKLMNOPQRSTUVWXYZ'') c of
        Some u \<Rightarrow> u
      | None \<Rightarrow> c)"

definition py_upper :: "string \<Rightarrow> string" where
  "py_upper s = map upper_char s"

text \<open>The ASCII characters that \<^verbatim>\<open>str.split()\<close> and \<^verbatim>\<open>str.strip()\<close> treat as space.\<close>

definition is_space :: "char \<Rightarrow> bool" where
  "is_space c =
     (c \<in> set [CHR 0x09, CHR 0x0A, CHR 0x0B, CHR 0x0C, CHR 0x0D,
                CHR 0x1C, CHR 0x1D, CHR 0x1E, CHR 0x1F, CHR 0x20])"

text \<open>\<^verbatim>\<open>str.split()\<close> with no argument: the maximal runs of non-space characters.\<close>

fun split_acc :: "string \<Rightarrow> string \<Rightarrow> string list" where
  "split_acc cur [] = (if cur = [] then [] else [cur])"
| "split_acc cur (c # cs) =
     (if is_space c
      then (if cur = [] then split_acc [] cs else cur # split_acc [] cs)
      else split_acc (cur @ [c]) cs)"

definition py_split :: "string \<Rightarrow> string list" where
  "py_split s = split_acc [] s"

definition py_strip :: "string \<Rightarrow> string" where
  "py_strip s = rev (dropWhile is_space (rev (dropWhile is_space s)))"

text \<open>\<^verbatim>\<open>needle in hay\<close> on strings.\<close>

fun contains :: "string \<Rightarrow> string \<Rightarrow> bool" where
  "contains needle [] = (needle = [])"
| "contains needle (c # cs) =
     (take (length needle) (c # cs) = needle \<or> contains needle cs)"

section \<open>The Gateway: \<^verbatim>\<open>scripts/rig_control.py\<close>\<close>

definition min_request_interval :: time where
  "min_request_interval = 0.05"

text \<open>
  \<^verbatim>\<open>_safe_call\<close>: under the lock, sleep until \<^verbatim>\<open>_min_request_interval\<close> has
  passed since the last request, make the call, and record the time at which it
  returned or raised. Only the sleep and the remote call take time in the model.
\<close>

definition safe_call :: "env \<Rightarrow> rpc \<Rightarrow> world \<Rightarrow> xval option \<times> world" where
  "safe_call e r w =
     (let current_time = clock w;
          time_since_last = current_time - last_request_time w;
          w1 = (if time_since_last < min_request_interval
                then w\<lparr>clock := clock w + (min_request_interval - time_since_last)\<rparr>
                else w);
          (d, result) = endpoint e (trace w1) r;
          w2 = w1\<lparr>trace := trace w1 @ [Request r (clock w1) True],
                   clock := clock w1 + d\<rparr>
      in (result, w2\<lparr>last_request_time := clock w2\<rparr>))"

text \<open>
  A call made on the proxy directly, as \<^verbatim>\<open>self.proxy.rig.get_ptt()\<close>: no lock, no
  sleep, and \<^verbatim>\<open>_last_request_time\<close> is left alone.
\<close>

definition direct_call :: "env \<Rightarrow> rpc \<Rightarrow> world \<Rightarrow> xval option \<times> world" where
  "direct_call e r w =
     (let (d, result) = endpoint e (trace w) r
      in (result, w\<lparr>trace := trace w @ [Request r (clock w) False],
                     clock := clock w + d\<rparr>))"

text \<open>A \<^verbatim>\<open>RigControl\<close> object: whether \<^verbatim>\<open>proxy\<close> is set, and \<^verbatim>\<open>_connected\<close>.\<close>

record rig_control =
  proxy :: bool
  connected :: bool

definition new_rig_control :: rig_control where
  "new_rig_control = \<lparr>proxy = False, connected = False\<rparr>"

definition is_connected :: "rig_control \<Rightarrow> bool" where
  "is_connected rc = (connected rc \<and> proxy rc)"

definition enter :: "gw_call \<Rightarrow> world \<Rightarrow> world" where
  "enter c w = w\<lparr>trace := trace w @ [Invoke c]\<rparr>"

definition connect :: "env \<Rightarrow> rig_control \<Rightarrow> world \<Rightarrow> bool \<times> rig_control \<times> world" where
  "connect e rc w =
     (case safe_call e Get_xcvr (enter Call_connect w) of
        (Some xcvr, w') \<Rightarrow> (True, rc\<lparr>proxy := True, connected := True\<rparr>, w')
      | (None, w') \<Rightarrow> (False, rc\<lparr>proxy := True, connected := False\<rparr>, w'))"

definition disconnect :: "rig_control \<Rightarrow> world \<Rightarrow> rig_control \<times> world" where
  "disconnect rc w = (rc\<lparr>proxy := False, connected := False\<rparr>, enter Call_disconnect w)"

definition get_frequency :: "env \<Rightarrow> rig_control \<Rightarrow> world \<Rightarrow> int option \<times> world" where
  "get_frequency e rc w =
     (let w0 = enter Call_get_frequency w in
      if \<not> is_connected rc then (None, w0)
      else (case safe_call e Get_vfo w0 of
              (Some freq_str, w') \<Rightarrow> (py_int_float e freq_str, w')
            | (None, w') \<Rightarrow> (None, w')))"

text \<open>
  \<^verbatim>\<open>set_frequency\<close>: the argument \<^verbatim>\<open>float(frequency)\<close> is evaluated inside the
  \<^verbatim>\<open>try\<close> block before \<^verbatim>\<open>_safe_call\<close> is entered; when it raises, the method
  returns \<^verbatim>\<open>False\<close> and no request is made.
\<close>

definition set_frequency :: "env \<Rightarrow> rig_control \<Rightarrow> int \<Rightarrow> world \<Rightarrow> bool \<times> world" where
  "set_frequency e rc frequency w =
     (let w0 = enter (Call_set_frequency frequency) w in
      if \<not> is_connected rc then (False, w0)
      else if float_overflows frequency then (False, w0)
      else (case safe_call e (Set_vfo frequency) w0 of
              (Some r, w') \<Rightarrow> (True, w')
            | (None, w') \<Rightarrow> (False, w')))"

definition get_mode :: "env \<Rightarrow> rig_control \<Rightarrow> world \<Rightarrow> xval option \<times> world" where
  "get_mode e rc w =
     (let w0 = enter Call_get_mode w in
      if \<not> is_connected rc then (None, w0)
      else safe_call e Get_mode w0)"

definition valid_modes :: "string list" where
  "valid_modes = [''USB'', ''LSB'', ''CW'', ''AM'', ''FM'', ''CW-R'', ''RTTY'', ''RTTY-R'']"

definition set_mode :: "env \<Rightarrow> rig_control \<Rightarrow> string \<Rightarrow> world \<Rightarrow> bool \<times> world" where
  "set_mode e rc mode w =
     (let w0 = enter (Call_set_mode mode) w in
      if \<not> is_connected rc then (False, w0)
      else if py_upper mode \<notin> set valid_modes then (False, w0)
      else (case safe_call e (Set_mode (py_upper mode)) w0 of
              (Some r, w') \<Rightarrow> (True, w')
            | (None, w') \<Rightarrow> (False, w')))"

text \<open>
  \<^verbatim>\<open>get_bandwidth\<close>: the reply is a list whose first element counts, or a single
  value; \<^verbatim>\<open>int(float(str(v)))\<close> is modelled by \<open>py_int_float\<close>.
\<close>

definition get_bandwidth :: "env \<Rightarrow> rig_control \<Rightarrow> world \<Rightarrow> int option \<times> world" where
  "get_bandwidth e rc w =
     (let w0 = enter Call_get_bandwidth w in
      if \<not> is_connected rc then (None, w0)
      else (case safe_call e Get_bw w0 of
              (Some (XList []), w') \<Rightarrow> (None, w')
            | (Some (XList (v # vs)), w') \<Rightarrow> (py_int_float e v, w')
            | (Some bw_result, w') \<Rightarrow> (py_int_float e bw_result, w')
            | (None, w') \<Rightarrow> (None, w')))"

definition set_bandwidth :: "env \<Rightarrow> rig_control \<Rightarrow> int \<Rightarrow> world \<Rightarrow> bool \<times> world" where
  "set_bandwidth e rc bandwidth w =
     (let w0 = enter (Call_set_bandwidth bandwidth) w in
      if \<not> is_connected rc then (False, w0)
      else if float_overflows bandwidth then (False, w0)
      else (case safe_call e (Set_bw bandwidth) w0 of
              (Some r, w') \<Rightarrow> (True, w')
            | (None, w') \<Rightarrow> (False, w')))"

definition get_power :: "env \<Rightarrow> rig_control \<Rightarrow> world \<Rightarrow> pyfloat option \<times> world" where
  "get_power e rc w =
     (let w0 = enter Call_get_power w in
      if \<not> is_connected rc then (None, w0)
      else (case safe_call e Get_power w0 of
              (Some p, w') \<Rightarrow> (py_float e p, w')
            | (None, w') \<Rightarrow> (None, w')))"

definition set_power :: "env \<Rightarrow> rig_control \<Rightarrow> real \<Rightarrow> world \<Rightarrow> bool \<times> world" where
  "set_power e rc watts w =
     (let w0 = enter (Call_set_power watts) w in
      if \<not> is_connected rc then (False, w0)
      else if \<not> (0 \<le> watts \<and> watts \<le> 10) then (False, w0)
      else (case safe_call e (Set_power watts) w0 of
              (Some r, w') \<Rightarrow> (True, w')
            | (None, w') \<Rightarrow> (False, w')))"

text \<open>\<^verbatim>\<open>get_ptt\<close> and \<^verbatim>\<open>set_ptt\<close> call the proxy directly.\<close>

definition get_ptt :: "env \<Rightarrow> rig_control \<Rightarrow> world \<Rightarrow> bool option \<times> world" where
  "get_ptt e rc w =
     (let w0 = enter Call_get_ptt w in
      if \<not> is_connected rc then (None, w0)
      else (case direct_call e Get_ptt w0 of
              (Some ptt_state, w') \<Rightarrow> (map_option (\<lambda>n. n \<noteq> 0) (py_int e ptt_state), w')
            | (None, w') \<Rightarrow> (None, w')))"

definition set_ptt :: "env \<Rightarrow> rig_control \<Rightarrow> bool \<Rightarrow> world \<Rightarrow> bool \<times> world" where
  "set_ptt e rc state w =
     (let w0 = enter (Call_set_ptt state) w in
      if \<not> is_connected rc then (False, w0)
      else (case direct_call e (Set_ptt (if state then 1 else 0)) w0 of
              (Some r, w') \<Rightarrow> (True, w')
            | (None, w') \<Rightarrow> (False, w')))"

section \<open>The display client and the synchronizer: \<^verbatim>\<open>scripts/frequency_sync.py\<close>\<close>

text \<open>An \<^verbatim>\<open>SDRControl\<close> object: whether \<^verbatim>\<open>sock\<close> is set, and \<^verbatim>\<open>_connected\<close>.\<close>

record sdr_control =
  sock :: bool
  sdr_connected :: bool

definition sdr_is_connected :: "sdr_control \<Rightarrow> bool" where
  "sdr_is_connected sd = (sdr_connected sd \<and> sock sd)"

text \<open>
  \<^verbatim>\<open>send_command\<close>: nothing is written when the object is not connected; otherwise the
  command is handed to the socket, and either the stripped reply comes back or the socket
  raises and the object marks itself disconnected.
\<close>

definition send_command ::
  "env \<Rightarrow> sdr_control \<Rightarrow> sdr_cmd \<Rightarrow> world \<Rightarrow> string option \<times> sdr_control \<times> world" where
  "send_command e sd command w =
     (if \<not> sdr_is_connected sd then (None, sd, w)
      else (case display e (trace w) command of
              Some response \<Rightarrow>
                (Some (py_strip response), sd, w\<lparr>trace := trace w @ [Display command]\<rparr>)
            | None \<Rightarrow>
                (None, sd\<lparr>sdr_connected := False\<rparr>,
                 w\<lparr>trace := trace w @ [Display command]\<rparr>)))"

definition sdr_set_frequency ::
  "env \<Rightarrow> sdr_control \<Rightarrow> int \<Rightarrow> world \<Rightarrow> bool \<times> sdr_control \<times> world" where
  "sdr_set_frequency e sd frequency w =
     (case send_command e sd (Sdr_F frequency) w of
        (Some response, sd', w') \<Rightarrow> (response \<noteq> [] \<and> contains ''RPRT 0'' response, sd', w')
      | (None, sd', w') \<Rightarrow> (False, sd', w'))"

definition sdr_get_frequency ::
  "env \<Rightarrow> sdr_control \<Rightarrow> world \<Rightarrow> int option \<times> sdr_control \<times> world" where
  "sdr_get_frequency e sd w =
     (case send_command e sd Sdr_f w of
        (Some response, sd', w') \<Rightarrow>
          ((if response \<noteq> [] then int_of_str e response else None), sd', w')
      | (None, sd', w') \<Rightarrow> (None, sd', w'))"

definition sdr_set_mode ::
  "env \<Rightarrow> sdr_control \<Rightarrow> xval \<Rightarrow> world \<Rightarrow> bool \<times> sdr_control \<times> world" where
  "sdr_set_mode e sd mode w =
     (case send_command e sd (Sdr_M mode) w of
        (Some response, sd', w') \<Rightarrow> (response \<noteq> [] \<and> contains ''RPRT 0'' response, sd', w')
      | (None, sd', w') \<Rightarrow> (False, sd', w'))"

text \<open>A \<^verbatim>\<open>FrequencySync\<close> object: its two clients and the three cursors.\<close>

record frequency_sync =
  fs_rig :: rig_control
  fs_sdr :: sdr_control
  last_rig_frequency :: int
  last_sdr_frequency :: int
  last_mode :: xval

definition new_frequency_sync :: frequency_sync where
  "new_frequency_sync =
     \<lparr>fs_rig = new_rig_control, fs_sdr = \<lparr>sock = False, sdr_connected = False\<rparr>,
      last_rig_frequency = 0, last_sdr_frequency = 0, last_mode = XStr []\<rparr>"

text \<open>
  The frequency branch of \<^verbatim>\<open>sync_once\<close> (the \<^verbatim>\<open>if\<close>/\<^verbatim>\<open>elif\<close> chain). The first
  component of the result is \<open>False\<close> where the source returns \<^verbatim>\<open>False\<close> at once.
\<close>

definition sync_frequency ::
  "env \<Rightarrow> frequency_sync \<Rightarrow> int \<Rightarrow> int \<Rightarrow> world \<Rightarrow> bool \<times> frequency_sync \<times> world" where
  "sync_frequency e s rig_frequency sdr_frequency w =
     (let rig_changed = (rig_frequency \<noteq> last_rig_frequency s);
          sdr_changed = (sdr_frequency \<noteq> last_sdr_frequency s)
      in if rig_changed \<and> sdr_changed then
           (case sdr_set_frequency e (fs_sdr s) rig_frequency w of
              (True, sd, w') \<Rightarrow>
                (True, s\<lparr>fs_sdr := sd, last_rig_frequency := rig_frequency,
                         last_sdr_frequency := rig_frequency\<rparr>, w')
            | (False, sd, w') \<Rightarrow> (False, s\<lparr>fs_sdr := sd\<rparr>, w'))
         else if rig_changed then
           (case sdr_set_frequency e (fs_sdr s) rig_frequency w of
              (True, sd, w') \<Rightarrow>
                (True, s\<lparr>fs_sdr := sd, last_rig_frequency := rig_frequency,
                         last_sdr_frequency := rig_frequency\<rparr>, w')
            | (False, sd, w') \<Rightarrow> (False, s\<lparr>fs_sdr := sd\<rparr>, w'))
         else if sdr_changed then
           (case set_frequency e (fs_rig s) sdr_frequency w of
              (True, w') \<Rightarrow>
                (True, s\<lparr>last_sdr_frequency := sdr_frequency,
                         last_rig_frequency := sdr_frequency\<rparr>, w')
            | (False, w') \<Rightarrow> (False, s, w'))
         else (True, s, w))"

text \<open>
  The mode branch. \<^verbatim>\<open>mode_changed\<close> is computed before the frequency branch, from
  a cursor that branch does not touch.
\<close>

definition sync_mode ::
  "env \<Rightarrow> frequency_sync \<Rightarrow> xval \<Rightarrow> world \<Rightarrow> bool \<times> frequency_sync \<times> world" where
  "sync_mode e s rig_mode w =
     (if rig_mode \<noteq> last_mode s then
        (case sdr_set_mode e (fs_sdr s) rig_mode w of
           (True, sd, w') \<Rightarrow> (True, s\<lparr>fs_sdr := sd, last_mode := rig_mode\<rparr>, w')
         | (False, sd, w') \<Rightarrow> (False, s\<lparr>fs_sdr := sd\<rparr>, w'))
      else (True, s, w))"

text \<open>
  What \<^verbatim>\<open>sync_once\<close> does once the three reads are made: abort on a missing rig value,
  substitute the cursor for a missing display value, then the two branches.
\<close>

definition sync_resolve ::
  "env \<Rightarrow> frequency_sync \<Rightarrow> int option \<Rightarrow> int option \<Rightarrow> xval option \<Rightarrow> world
    \<Rightarrow> bool \<times> frequency_sync \<times> world" where
  "sync_resolve e s rig_frequency sdr_frequency rig_mode w =
     (case (rig_frequency, rig_mode) of
        (Some rf, Some rm) \<Rightarrow>
          (let sf = (case sdr_frequency of None \<Rightarrow> last_sdr_frequency s | Some f \<Rightarrow> f)
           in case sync_frequency e s rf sf w of
                (False, s', w') \<Rightarrow> (False, s', w')
              | (True, s', w') \<Rightarrow> sync_mode e s' rm w')
      | _ \<Rightarrow> (False, s, w))"

definition sync_once :: "env \<Rightarrow> frequency_sync \<Rightarrow> world \<Rightarrow> bool \<times> frequency_sync \<times> world" where
  "sync_once e s w =
     (let (rig_frequency, w1) = get_frequency e (fs_rig s) w;
          (sdr_frequency, sd, w2) = sdr_get_frequency e (fs_sdr s) w1;
          (rig_mode, w3) = get_mode e (fs_rig s) w2
      in sync_resolve e (s\<lparr>fs_sdr := sd\<rparr>) rig_frequency sdr_frequency rig_mode w3)"

section \<open>The bridge: \<^verbatim>\<open>scripts/rigctld_bridge.py\<close>\<close>

text \<open>
  A \<^verbatim>\<open>RigctldBridge\<close> object. \<open>br_rig\<close> is the state of the \<^verbatim>\<open>RigControl\<close> object
  that \<^verbatim>\<open>self.rig\<close> refers to: when the caller supplied it, it is the caller's object,
  and what the bridge does to it the caller sees. \<open>server_socket\<close> tells whether the
  attribute is set. The threads are not part of the state.
\<close>

record bridge =
  br_rig :: rig_control
  owns_rig :: bool
  server_socket :: bool
  running :: bool
  ptt_on_time :: "time option"

definition ptt_timeout :: time where
  "ptt_timeout = 180"

text \<open>\<^verbatim>\<open>__init__\<close>, with the optional \<^verbatim>\<open>rig_control\<close> argument.\<close>

definition bridge_init :: "rig_control option \<Rightarrow> bridge" where
  "bridge_init rig_control_arg =
     (case rig_control_arg of
        Some rc \<Rightarrow>
          \<lparr>br_rig = rc, owns_rig = False, server_socket = False, running = False,
           ptt_on_time = None\<rparr>
      | None \<Rightarrow>
          \<lparr>br_rig = new_rig_control, owns_rig = True, server_socket = False, running = False,
           ptt_on_time = None\<rparr>)"

text \<open>The dictionary \<^verbatim>\<open>mode_map\<close>, in insertion order.\<close>

definition mode_map :: "(string \<times> string) list" where
  "mode_map =
     [(''USB'', ''USB''), (''LSB'', ''LSB''), (''CW'', ''CW''), (''CWR'', ''CW-R''),
      (''AM'', ''AM''), (''FM'', ''FM''), (''RTTY'', ''RTTY''), (''RTTYR'', ''RTTY-R''),
      (''PKTUSB'', ''USB''), (''PKTLSB'', ''LSB'')]"

text \<open>\<^verbatim>\<open>self.mode_map.get(k, default)\<close>.\<close>

definition mode_map_get :: "string \<Rightarrow> string \<Rightarrow> string" where
  "mode_map_get k dflt = (case map_of mode_map k of Some v \<Rightarrow> v | None \<Rightarrow> dflt)"

text \<open>
  \<^verbatim>\<open>{v: k for k, v in self.mode_map.items()}\<close>: the items are visited in insertion
  order and a later one overwrites an earlier one with the same key.
\<close>

definition mode_map_reverse :: "string \<rightharpoonup> string" where
  "mode_map_reverse = fold (\<lambda>(k, v) m. m(v \<mapsto> k)) mode_map Map.empty"

text \<open>
  \<^verbatim>\<open>self.mode_map_reverse.get(mode, 'USB')\<close> on what the Gateway returned. A number
  equals no key; a list is unhashable and the lookup raises (\<open>None\<close>).
\<close>

fun mode_map_reverse_get :: "xval \<Rightarrow> string option" where
  "mode_map_reverse_get (XStr s) =
     Some (case mode_map_reverse s of Some k \<Rightarrow> k | None \<Rightarrow> ''USB'')"
| "mode_map_reverse_get (XNum r) = Some ''USB''"
| "mode_map_reverse_get (XList vs) = None"

definition connect_to_rig :: "env \<Rightarrow> bridge \<Rightarrow> world \<Rightarrow> bool \<times> bridge \<times> world" where
  "connect_to_rig e b w =
     (if \<not> owns_rig b then (is_connected (br_rig b), b, w)
      else (case connect e (br_rig b) w of
              (ok, rc, w') \<Rightarrow> (ok, b\<lparr>br_rig := rc\<rparr>, w')))"

text \<open>
  \<^verbatim>\<open>start\<close>. \<open>bind_ok\<close> tells whether creating, binding and listening on the socket
  succeeds; when it does not, the socket object has been created before \<^verbatim>\<open>bind\<close>
  raised.
\<close>

definition start :: "env \<Rightarrow> bool \<Rightarrow> bridge \<Rightarrow> world \<Rightarrow> bool \<times> bridge \<times> world" where
  "start e bind_ok b w =
     (if running b then (False, b, w)
      else (case connect_to_rig e b w of
              (False, b1, w1) \<Rightarrow> (False, b1, w1)
            | (True, b1, w1) \<Rightarrow>
                (if bind_ok then (True, b1\<lparr>server_socket := True, running := True\<rparr>, w1)
                 else (False, b1\<lparr>server_socket := True\<rparr>, w1))))"

text \<open>
  \<^verbatim>\<open>_set_ptt\<close>, the safety wrapper. \<^verbatim>\<open>RigControl.set_ptt\<close> catches every exception
  and returns \<^verbatim>\<open>False\<close>, so the wrapper's own handler is never entered.
\<close>

definition bridge_set_ptt :: "env \<Rightarrow> bridge \<Rightarrow> bool \<Rightarrow> world \<Rightarrow> bool \<times> bridge \<times> world" where
  "bridge_set_ptt e b state w =
     (if state then
        (case set_ptt e (br_rig b) True w of
           (True, w') \<Rightarrow> (True, b\<lparr>ptt_on_time := Some (clock w')\<rparr>, w')
         | (False, w') \<Rightarrow> (False, b, w'))
      else
        (case set_ptt e (br_rig b) False w of
           (True, w') \<Rightarrow> (True, b\<lparr>ptt_on_time := None\<rparr>, w')
         | (False, w') \<Rightarrow> (False, b, w')))"

text \<open>
  \<^verbatim>\<open>stop\<close>. The two \<^verbatim>\<open>join(timeout=2.0)\<close> calls change nothing in the model.
\<close>

definition stop :: "env \<Rightarrow> bridge \<Rightarrow> world \<Rightarrow> bridge \<times> world" where
  "stop e b w =
     (if \<not> running b then (b, w)
      else (let b1 = b\<lparr>running := False, server_socket := False\<rparr>;
                (ok, b2, w2) = bridge_set_ptt e b1 False w;
                (rc, w3) = disconnect (br_rig b2) w2
            in (b2\<lparr>br_rig := rc\<rparr>, w3)))"

text \<open>
  One pass of the body of \<^verbatim>\<open>_ptt_monitor_loop\<close>, before its \<^verbatim>\<open>time.sleep(1.0)\<close>.
  \<^verbatim>\<open>if self.ptt_on_time:\<close> is false for \<^verbatim>\<open>None\<close> and for \<open>0.0\<close>.
\<close>

definition ptt_monitor_check :: "env \<Rightarrow> bridge \<Rightarrow> world \<Rightarrow> bridge \<times> world" where
  "ptt_monitor_check e b w =
     (case ptt_on_time b of
        None \<Rightarrow> (b, w)
      | Some t \<Rightarrow>
          (if t \<noteq> 0 \<and> clock w - t > ptt_timeout
           then (case bridge_set_ptt e b False w of (ok, b', w') \<Rightarrow> (b', w'))
           else (b, w)))"

definition newline :: char where
  "newline = CHR 0x0A"

definition unlines :: "string list \<Rightarrow> string" where
  "unlines ls = concat (map (\<lambda>l. l @ [newline]) ls)"

definition dump_state :: string where
  "dump_state = unlines
     [''0'', ''2'', ''2'',
      ''150000.000000 30000000.000000 0x1ff -1 -1 0x10000003 0x3'',
      ''0 0 0 0 0 0 0'',
      ''150000.000000 30000000.000000 0x1ff -1 -1 0x10000003 0x3'',
      ''0 0 0 0 0 0 0'',
      ''0 0'', ''0 0'', ''0x1ff 1'', ''0x1ff 0'', ''0 0'',
      ''0x1e 2400'', ''0x2 500'', ''0x1 8000'', ''0x1 2400'', ''0x20 15000'',
      ''0x20 8000'', ''0x40 230000'', ''0 0'',
      ''9990'', ''9990'', ''10000'', ''0'', ''10'', ''10'', ''10000'',
      ''1'', ''1'', ''1'', ''0'', ''0'', ''0'']"

definition rprt_ok :: string where
  "rprt_ok = ''RPRT 0''"

definition rprt_fail :: string where
  "rprt_fail = ''RPRT -1''"

text \<open>
  \<^verbatim>\<open>_process_command\<close>. Every exception raised inside the \<^verbatim>\<open>try\<close> block (a
  failing \<^verbatim>\<open>float\<close> or \<^verbatim>\<open>int\<close>, an unhashable mode) ends in \<^verbatim>\<open>RPRT -1\<close>.
\<close>

definition process_command :: "env \<Rightarrow> bridge \<Rightarrow> string \<Rightarrow> world \<Rightarrow> string \<times> bridge \<times> world" where
  "process_command e b command w =
     (case py_split command of
        [] \<Rightarrow> (rprt_fail, b, w)
      | cmd # args \<Rightarrow>
          if cmd = ''f'' then
            (case get_frequency e (br_rig b) w of
               (Some freq, w') \<Rightarrow> (py_str_int freq, b, w')
             | (None, w') \<Rightarrow> (rprt_fail, b, w'))
          else if cmd = ''F'' then
            (case args of
               [] \<Rightarrow> (rprt_fail, b, w)
             | a # rest \<Rightarrow>
                 (case py_int_float e (XStr a) of
                    None \<Rightarrow> (rprt_fail, b, w)
                  | Some freq \<Rightarrow>
                      (case set_frequency e (br_rig b) freq w of
                         (True, w') \<Rightarrow> (rprt_ok, b, w')
                       | (False, w') \<Rightarrow> (rprt_fail, b, w'))))
          else if cmd = ''m'' then
            (case get_mode e (br_rig b) w of
               (Some mode, w') \<Rightarrow>
                 (if truthy mode then
                    (case mode_map_reverse_get mode of
                       Some hamlib_mode \<Rightarrow> (hamlib_mode @ [newline] @ ''0'', b, w')
                     | None \<Rightarrow> (rprt_fail, b, w'))
                  else (rprt_fail, b, w'))
             | (None, w') \<Rightarrow> (rprt_fail, b, w'))
          else if cmd = ''M'' then
            (case args of
               [] \<Rightarrow> (rprt_fail, b, w)
             | a # rest \<Rightarrow>
                 (let hamlib_mode = py_upper a;
                      flrig_mode = mode_map_get hamlib_mode ''USB''
                  in case set_mode e (br_rig b) flrig_mode w of
                       (True, w') \<Rightarrow> (rprt_ok, b, w')
                     | (False, w') \<Rightarrow> (rprt_fail, b, w')))
          else if cmd = ''t'' then
            (case get_ptt e (br_rig b) w of
               (Some ptt, w') \<Rightarrow> ((if ptt then ''1'' else ''0''), b, w')
             | (None, w') \<Rightarrow> (rprt_fail, b, w'))
          else if cmd = ''T'' then
            (case args of
               [] \<Rightarrow> (rprt_fail, b, w)
             | a # rest \<Rightarrow>
                 (case int_of_str e a of
                    None \<Rightarrow> (rprt_fail, b, w)
                  | Some ptt \<Rightarrow>
                      (case bridge_set_ptt e b (ptt = 1) w of
                         (True, b', w') \<Rightarrow> (rprt_ok, b', w')
                       | (False, b', w') \<Rightarrow> (rprt_fail, b', w'))))
          else if cmd = ''v'' then (''VFOA'', b, w)
          else if cmd = ''V'' then (rprt_ok, b, w)
          else if cmd = ''s'' then (''0'' @ [newline] @ ''VFOA'', b, w)
          else if cmd = ''S'' then (rprt_ok, b, w)
          else if cmd = CHR 0x5C # ''dump_state'' then (dump_state, b, w)
          else if cmd = CHR 0x5C # ''get_powerstat'' then (''1'', b, w)
          else if cmd = CHR 0x5C # ''chk_vfo'' then (rprt_ok, b, w)
          else if cmd = ''q'' \<or> cmd = ''Q'' then (rprt_ok, b, w)
          else (rprt_fail, b, w))"

text \<open>
  The bridge's threads interleave; each event below runs to its end before the next. A
  client command arrives, or the watchdog wakes, at a given time: the clock moves on to
  that time (it never runs backwards) and the handler runs. Both loops
  (\<^verbatim>\<open>_handle_client\<close> and \<^verbatim>\<open>_ptt_monitor_loop\<close>) go on only \<^verbatim>\<open>while self.running\<close>.
\<close>

datatype sys_event = Client string | Watchdog

definition bridge_step :: "env \<Rightarrow> time \<times> sys_event \<Rightarrow> bridge \<times> world \<Rightarrow> bridge \<times> world" where
  "bridge_step e tev bw =
     (case (tev, bw) of
        ((t, ev), (b, w)) \<Rightarrow>
          (let w0 = w\<lparr>clock := max (clock w) t\<rparr>
           in if \<not> running b then (b, w0)
              else (case ev of
                      Client command \<Rightarrow>
                        (case process_command e b command w0 of (reply, b', w') \<Rightarrow> (b', w'))
                    | Watchdog \<Rightarrow> ptt_monitor_check e b w0)))"

definition bridge_run :: "env \<Rightarrow> (time \<times> sys_event) list \<Rightarrow> bridge \<times> world \<Rightarrow> bridge \<times> world" where
  "bridge_run e evs bw = fold (bridge_step e) evs bw"

section \<open>Auxiliary definitions for the statements\<close>

text \<open>
  The time at which \<^verbatim>\<open>_safe_call\<close>, entered in world \<open>w\<close>, hands its request to the
  proxy: at once, or when the minimum spacing since the last request has passed.
\<close>

definition next_start :: "world \<Rightarrow> time" where
  "next_start w = max (clock w) (last_request_time w + min_request_interval)"

text \<open>The writes of a frequency among the events: to the display, or to the rig.\<close>

fun is_frequency_write :: "event \<Rightarrow> bool" where
  "is_frequency_write (Display (Sdr_F f)) = True"
| "is_frequency_write (Request (Set_vfo f) t g) = True"
| "is_frequency_write ev = False"

definition frequency_writes :: "event list \<Rightarrow> event list" where
  "frequency_writes evs = filter is_frequency_write evs"

text \<open>
  The writes among the events: a frequency or a mode sent to the display, and every
  \<^verbatim>\<open>set_*\<close> request to the rig.
\<close>

fun is_write :: "event \<Rightarrow> bool" where
  "is_write (Display (Sdr_F f)) = True"
| "is_write (Display (Sdr_M m)) = True"
| "is_write (Request (Set_vfo f) t g) = True"
| "is_write (Request (Set_mode m) t g) = True"
| "is_write (Request (Set_bw n) t g) = True"
| "is_write (Request (Set_power p) t g) = True"
| "is_write (Request (Set_ptt n) t g) = True"
| "is_write ev = False"

definition writes :: "event list \<Rightarrow> event list" where
  "writes evs = filter is_write evs"

text \<open>The writes to the rig endpoint among the events: every \<^verbatim>\<open>set_*\<close> request.\<close>

fun is_rig_write :: "event \<Rightarrow> bool" where
  "is_rig_write (Request (Set_vfo f) t g) = True"
| "is_rig_write (Request (Set_mode m) t g) = True"
| "is_rig_write (Request (Set_bw n) t g) = True"
| "is_rig_write (Request (Set_power p) t g) = True"
| "is_rig_write (Request (Set_ptt n) t g) = True"
| "is_rig_write ev = False"

definition rig_writes :: "event list \<Rightarrow> event list" where
  "rig_writes evs = filter is_rig_write evs"

text \<open>The calls of Gateway methods among the events.\<close>

fun is_gateway_call :: "event \<Rightarrow> bool" where
  "is_gateway_call (Invoke c) = True"
| "is_gateway_call ev = False"

definition gateway_calls :: "event list \<Rightarrow> event list" where
  "gateway_calls evs = filter is_gateway_call evs"

subsection \<open>Concrete environments for the examples\<close>

text \<open>
  A reader of unsigned decimal numerals, enough of \<^verbatim>\<open>int(s)\<close> and \<^verbatim>\<open>float(s)\<close> for
  the examples, which convert nothing else.
\<close>

definition digit_val :: "char \<Rightarrow> int option" where
  "digit_val c = map_of (zip ''0123456789'' [0, 1, 2, 3, 4, 5, 6, 7, 8, 9]) c"

definition decimal :: "string \<Rightarrow> int option" where
  "decimal s =
     (if s = [] then None
      else fold (\<lambda>c acc. case (acc, digit_val c) of
                            (Some n, Some d) \<Rightarrow> Some (10 * n + d)
                          | _ \<Rightarrow> None) s (Some 0))"

text \<open>
  An environment whose endpoint and display answer by the request alone, whatever
  happened before.
\<close>

definition demo_env :: "(rpc \<Rightarrow> time \<times> xval option) \<Rightarrow> (sdr_cmd \<Rightarrow> string option) \<Rightarrow> env" where
  "demo_env ep disp =
     \<lparr>endpoint = (\<lambda>h. ep),
      display = (\<lambda>h. disp),
      float_of_str = (\<lambda>s. map_option (\<lambda>n. Fin (of_int n)) (decimal s)),
      int_of_str = decimal\<rparr>"

text \<open>A connected Gateway object, and a fresh world at a given time.\<close>

definition rig_on :: rig_control where
  "rig_on = \<lparr>proxy = True, connected = True\<rparr>"

definition world_at :: "time \<Rightarrow> world" where
  "world_at t = \<lparr>clock = t, last_request_time = 0, trace = []\<rparr>"

text \<open>
  For the synchronizer: an environment whose endpoint answers \<^verbatim>\<open>get_vfo\<close> and
  \<^verbatim>\<open>set_vfo\<close> as given, \<^verbatim>\<open>get_mode\<close> with \<^verbatim>\<open>USB\<close>, and whose display answers
  \<^verbatim>\<open>f\<close> as given and every write with \<^verbatim>\<open>RPRT 0\<close>; and a synchronizer with both
  clients connected and the cursors at 100 Hz, 100 Hz and \<^verbatim>\<open>USB\<close>.
\<close>

definition sync_env :: "xval option \<Rightarrow> xval option \<Rightarrow> string option \<Rightarrow> env" where
  "sync_env vfo_reply set_vfo_reply f_reply =
     demo_env
       (\<lambda>r. case r of
               Get_vfo \<Rightarrow> (0, vfo_reply)
             | Set_vfo f \<Rightarrow> (0, set_vfo_reply)
             | Get_mode \<Rightarrow> (0, Some (XStr ''USB''))
             | _ \<Rightarrow> (0, Some (XStr [])))
       (\<lambda>c. case c of Sdr_f \<Rightarrow> f_reply | _ \<Rightarrow> Some ''RPRT 0'')"

definition sync_state :: frequency_sync where
  "sync_state =
     \<lparr>fs_rig = rig_on, fs_sdr = \<lparr>sock = True, sdr_connected = True\<rparr>,
      last_rig_frequency = 100, last_sdr_frequency = 100, last_mode = XStr ''USB''\<rparr>"

section \<open>Properties of the Gateway\<close>

lemma py_split_example: "py_split ''M  CWR '' = [''M'', ''CWR'']"
  by (simp add: py_split_def is_space_def)

lemma py_str_int_examples:
  "py_str_int 14074000 = ''14074000''" "py_str_int 0 = ''0''" "py_str_int (- 12) = ''-12''"
  by (simp_all add: py_str_int_def digit_char_def str_of_nat.simps [of "numeral _"]
      str_of_nat.simps [of 0] str_of_nat.simps [of "Suc 0"])

lemma decimal_examples:
  "decimal ''1'' = Some 1" "decimal ''0'' = Some 0" "decimal ''200'' = Some 200"
  "decimal ''x'' = None"
  by (simp_all add: decimal_def digit_val_def)

text \<open>\<^verbatim>\<open>_safe_call\<close> and a direct call, in closed form.\<close>

lemma safe_call_unfold:
  "safe_call e r w =
     (snd (endpoint e (trace w) r),
      \<lparr>clock = next_start w + fst (endpoint e (trace w) r),
       last_request_time = next_start w + fst (endpoint e (trace w) r),
       trace = trace w @ [Request r (next_start w) True]\<rparr>)"
  by (cases "endpoint e (trace w) r")
     (auto simp add: safe_call_def next_start_def Let_def max_def)

lemma direct_call_unfold:
  "direct_call e r w =
     (snd (endpoint e (trace w) r),
      w\<lparr>trace := trace w @ [Request r (clock w) False],
        clock := clock w + fst (endpoint e (trace w) r)\<rparr>)"
  by (cases "endpoint e (trace w) r") (simp add: direct_call_def)

text \<open>
  Two requests that both go through \<^verbatim>\<open>_safe_call\<close> are spaced: if a remote call takes
  no negative time and the clock does not run backwards before the next
  \<^verbatim>\<open>_safe_call\<close> is entered (in world \<open>w'\<close>), the next request starts at least
  \<open>min_request_interval\<close> after this one.
\<close>

lemma safe_call_spacing:
  assumes "0 \<le> fst (endpoint e (trace w) r)"
    and "clock (snd (safe_call e r w)) \<le> clock w'"
    and "last_request_time w' = last_request_time (snd (safe_call e r w))"
  shows "next_start w + min_request_interval \<le> next_start w'"
  using assms by (simp add: safe_call_unfold next_start_def)

text \<open>
  The operations on bandwidth and power, like those on frequency and mode, make their
  request through \<^verbatim>\<open>_safe_call\<close>.
\<close>

lemma bandwidth_power_trace:
  "trace (snd (get_bandwidth e rc w)) =
     trace w @ [Invoke Call_get_bandwidth] @
     (if is_connected rc then [Request Get_bw (next_start w) True] else [])"
  "trace (snd (set_bandwidth e rc n w)) =
     trace w @ [Invoke (Call_set_bandwidth n)] @
     (if is_connected rc \<and> \<not> float_overflows n
      then [Request (Set_bw n) (next_start w) True] else [])"
  "trace (snd (get_power e rc w)) =
     trace w @ [Invoke Call_get_power] @
     (if is_connected rc then [Request Get_power (next_start w) True] else [])"
  by (auto simp add: get_bandwidth_def set_bandwidth_def get_power_def safe_call_unfold
      enter_def next_start_def Let_def split: option.splits xval.splits list.splits)

text \<open>
  C1. Claim: every Gateway operation, \<^verbatim>\<open>get_ptt\<close> and \<^verbatim>\<open>set_ptt\<close> included, issues
  its remote request through the lock with the minimum spacing applied, so that
  consecutive requests start at least 50 ms apart. The code does not do this for the two
  PTT operations: they call the proxy directly. On a connected Gateway whose endpoint
  answers every call after 1 ms, \<^verbatim>\<open>get_frequency\<close>, \<^verbatim>\<open>get_ptt\<close> and
  \<^verbatim>\<open>set_ptt(True)\<close> in a row give three requests 1 ms apart, the last two outside
  \<^verbatim>\<open>_safe_call\<close>.
\<close>

theorem ptt_requests_bypass_safe_call:
  "trace (snd (set_ptt (demo_env (\<lambda>r. (0.001, Some (XNum 1))) (\<lambda>c. None)) rig_on True
     (snd (get_ptt (demo_env (\<lambda>r. (0.001, Some (XNum 1))) (\<lambda>c. None)) rig_on
       (snd (get_frequency (demo_env (\<lambda>r. (0.001, Some (XNum 1))) (\<lambda>c. None)) rig_on
         (world_at 100))))))) =
     [Invoke Call_get_frequency, Request Get_vfo 100 True,
      Invoke Call_get_ptt, Request Get_ptt 100.001 False,
      Invoke (Call_set_ptt True), Request (Set_ptt 1) 100.002 False]
   \<and> (100.002 :: time) - 100.001 < min_request_interval"
  by (simp add: set_ptt_def get_ptt_def get_frequency_def safe_call_unfold direct_call_unfold
      enter_def next_start_def demo_env_def rig_on_def world_at_def is_connected_def
      min_request_interval_def py_int_float_def double_overflows_def py_trunc_def Let_def)

text \<open>
  C6. Claim: \<^verbatim>\<open>set_mode\<close> with a mode outside the eight valid modes, and
  \<^verbatim>\<open>set_power\<close> with a power outside \<open>[0, 10]\<close>, fail without a remote call, and for
  arguments in range the remote call is attempted. As stated this fails twice: the mode is
  upper-cased before it is checked, so \<^verbatim>\<open>usb\<close>, which is not one of the eight
  strings, is accepted and sent as \<^verbatim>\<open>USB\<close>; and on a Gateway that is not connected no
  remote call is made even for a valid argument.
\<close>

theorem set_mode_lowercase_and_disconnected_counterexample:
  "''usb'' \<notin> set valid_modes
   \<and> set_mode (demo_env (\<lambda>r. (0, Some (XStr []))) (\<lambda>c. None)) rig_on ''usb'' (world_at 100) =
       (True, \<lparr>clock = 100, last_request_time = 100,
               trace = [Invoke (Call_set_mode ''usb''), Request (Set_mode ''USB'') 100 True]\<rparr>)
   \<and> ''USB'' \<in> set valid_modes
   \<and> set_mode (demo_env (\<lambda>r. (0, Some (XStr []))) (\<lambda>c. None)) new_rig_control ''USB''
         (world_at 100) =
       (False, \<lparr>clock = 100, last_request_time = 0, trace = [Invoke (Call_set_mode ''USB'')]\<rparr>)
   \<and> set_power (demo_env (\<lambda>r. (0, Some (XStr []))) (\<lambda>c. None)) new_rig_control 5
         (world_at 100) =
       (False, \<lparr>clock = 100, last_request_time = 0, trace = [Invoke (Call_set_power 5)]\<rparr>)"
  by (simp add: set_mode_def set_power_def safe_call_unfold enter_def next_start_def
      demo_env_def rig_on_def new_rig_control_def world_at_def is_connected_def
      min_request_interval_def py_upper_def upper_char_def valid_modes_def Let_def)

text \<open>
  C6, amended. On a connected Gateway, \<^verbatim>\<open>set_mode\<close> with a mode whose upper-cased form
  is not a valid mode, and \<^verbatim>\<open>set_power\<close> with a power outside \<open>[0, 10]\<close>, return
  \<^verbatim>\<open>False\<close> and leave the world as it was but for the mark of the call: no request is
  made. With a mode whose upper-cased form is valid, or a power in \<open>[0, 10]\<close>, exactly
  one request is made, through \<^verbatim>\<open>_safe_call\<close>, carrying the upper-cased mode or the
  power. On a Gateway that is not connected both return \<^verbatim>\<open>False\<close> without a request.
\<close>

theorem set_mode_set_power_validation:
  "(is_connected rc \<and> py_upper mode \<notin> set valid_modes \<longrightarrow>
      set_mode e rc mode w = (False, enter (Call_set_mode mode) w)) \<and>
   (is_connected rc \<and> py_upper mode \<in> set valid_modes \<longrightarrow>
      trace (snd (set_mode e rc mode w)) =
        trace w @ [Invoke (Call_set_mode mode),
                   Request (Set_mode (py_upper mode)) (next_start w) True]) \<and>
   (is_connected rc \<and> \<not> (0 \<le> watts \<and> watts \<le> 10) \<longrightarrow>
      set_power e rc watts w = (False, enter (Call_set_power watts) w)) \<and>
   (is_connected rc \<and> 0 \<le> watts \<and> watts \<le> 10 \<longrightarrow>
      trace (snd (set_power e rc watts w)) =
        trace w @ [Invoke (Call_set_power watts),
                   Request (Set_power watts) (next_start w) True]) \<and>
   (\<not> is_connected rc \<longrightarrow>
      set_mode e rc mode w = (False, enter (Call_set_mode mode) w) \<and>
      set_power e rc watts w = (False, enter (Call_set_power watts) w))"
  by (auto simp add: set_mode_def set_power_def safe_call_unfold enter_def next_start_def Let_def
      split: option.splits)

theorem set_mode_set_power_validation_witness:
  "set_mode (demo_env (\<lambda>r. (0, None)) (\<lambda>c. None)) rig_on ''digi'' (world_at 100) =
     (False, \<lparr>clock = 100, last_request_time = 0, trace = [Invoke (Call_set_mode ''digi'')]\<rparr>)
   \<and> trace (snd (set_mode (demo_env (\<lambda>r. (0, None)) (\<lambda>c. None)) rig_on ''cw-r'' (world_at 100))) =
       [Invoke (Call_set_mode ''cw-r''), Request (Set_mode ''CW-R'') 100 True]
   \<and> set_power (demo_env (\<lambda>r. (0, None)) (\<lambda>c. None)) rig_on 10.5 (world_at 100) =
       (False, \<lparr>clock = 100, last_request_time = 0, trace = [Invoke (Call_set_power 10.5)]\<rparr>)
   \<and> trace (snd (set_power (demo_env (\<lambda>r. (0, None)) (\<lambda>c. None)) rig_on 10 (world_at 100))) =
       [Invoke (Call_set_power 10), Request (Set_power 10) 100 True]
   \<and> set_mode (demo_env (\<lambda>r. (0, None)) (\<lambda>c. None)) new_rig_control ''CW'' (world_at 100) =
       (False, \<lparr>clock = 100, last_request_time = 0, trace = [Invoke (Call_set_mode ''CW'')]\<rparr>)"
  using set_mode_set_power_validation [of rig_on "''digi''" "demo_env (\<lambda>r. (0, None)) (\<lambda>c. None)" "world_at 100" "10.5"]
    set_mode_set_power_validation [of rig_on "''cw-r''" "demo_env (\<lambda>r. (0, None)) (\<lambda>c. None)" "world_at 100" "10"]
    set_mode_set_power_validation [of new_rig_control "''CW''" "demo_env (\<lambda>r. (0, None)) (\<lambda>c. None)" "world_at 100" "10"]
  by (simp add: enter_def next_start_def rig_on_def new_rig_control_def world_at_def is_connected_def
      min_request_interval_def py_upper_def upper_char_def valid_modes_def)

section \<open>Properties of the bridge\<close>

text \<open>\<^verbatim>\<open>RigControl.set_ptt\<close> and the wrapper \<^verbatim>\<open>_set_ptt\<close>, in closed form.\<close>

lemma set_ptt_unfold:
  "set_ptt e rc state w =
     (if \<not> is_connected rc then (False, enter (Call_set_ptt state) w)
      else (snd (endpoint e (trace w @ [Invoke (Call_set_ptt state)])
                   (Set_ptt (if state then 1 else 0))) \<noteq> None,
            w\<lparr>trace := trace w @ [Invoke (Call_set_ptt state),
                                  Request (Set_ptt (if state then 1 else 0)) (clock w) False],
              clock := clock w + fst (endpoint e (trace w @ [Invoke (Call_set_ptt state)])
                                        (Set_ptt (if state then 1 else 0)))\<rparr>))"
  by (auto simp add: set_ptt_def direct_call_unfold enter_def Let_def split: option.splits)

lemma set_ptt_trace:
  "trace (snd (set_ptt e rc state w)) =
     trace w @ [Invoke (Call_set_ptt state)] @
     (if is_connected rc then [Request (Set_ptt (if state then 1 else 0)) (clock w) False] else [])"
  by (simp add: set_ptt_unfold enter_def)

lemma bridge_set_ptt_unfold:
  "bridge_set_ptt e b state w =
     (fst (set_ptt e (br_rig b) state w),
      (if fst (set_ptt e (br_rig b) state w)
       then b\<lparr>ptt_on_time :=
                (if state then Some (clock (snd (set_ptt e (br_rig b) state w))) else None)\<rparr>
       else b),
      snd (set_ptt e (br_rig b) state w))"
  by (cases state; cases "set_ptt e (br_rig b) state w")
     (auto simp add: bridge_set_ptt_def split: bool.splits)

text \<open>
  C4. For every running bridge and every environment (the endpoint may answer, or raise),
  \<^verbatim>\<open>stop\<close> is the safety wrapper \<^verbatim>\<open>_set_ptt(False)\<close> applied to the bridge with its
  socket closed, followed by \<^verbatim>\<open>disconnect\<close> on the Gateway. The events show the order:
  the call of \<^verbatim>\<open>set_ptt(False)\<close>, its remote request if the Gateway is connected, and
  only then the disconnect; afterwards the Gateway is not connected. Whether a PTT
  session is open plays no part.
\<close>

theorem stop_forces_ptt_off_before_disconnect:
  assumes "running b"
  shows "stop e b w =
           (case bridge_set_ptt e (b\<lparr>running := False, server_socket := False\<rparr>) False w of
              (ok, b2, w2) \<Rightarrow>
                (b2\<lparr>br_rig := (br_rig b2)\<lparr>proxy := False, connected := False\<rparr>\<rparr>,
                 enter Call_disconnect w2))
         \<and> trace (snd (stop e b w)) =
             trace w @ [Invoke (Call_set_ptt False)] @
             (if is_connected (br_rig b) then [Request (Set_ptt 0) (clock w) False] else []) @
             [Invoke Call_disconnect]
         \<and> \<not> is_connected (br_rig (fst (stop e b w)))"
  using assms
  by (simp add: stop_def disconnect_def Let_def bridge_set_ptt_unfold set_ptt_trace enter_def
      is_connected_def)

text \<open>
  An instance: a running bridge with a PTT session open since time 90 is stopped at time
  100, and the endpoint raises on every call.
\<close>

theorem stop_forces_ptt_off_before_disconnect_witness:
  "running \<lparr>br_rig = rig_on, owns_rig = True, server_socket = True, running = True,
            ptt_on_time = Some 90\<rparr>
   \<and> trace (snd (stop (demo_env (\<lambda>r. (0.001, None)) (\<lambda>c. None))
        \<lparr>br_rig = rig_on, owns_rig = True, server_socket = True, running = True,
         ptt_on_time = Some 90\<rparr> (world_at 100))) =
       [Invoke (Call_set_ptt False), Request (Set_ptt 0) 100 False, Invoke Call_disconnect]
   \<and> \<not> is_connected (br_rig (fst (stop (demo_env (\<lambda>r. (0.001, None)) (\<lambda>c. None))
        \<lparr>br_rig = rig_on, owns_rig = True, server_socket = True, running = True,
         ptt_on_time = Some 90\<rparr> (world_at 100))))"
proof -
  have r: "running \<lparr>br_rig = rig_on, owns_rig = True, server_socket = True, running = True,
                    ptt_on_time = Some 90\<rparr>"
    by simp
  from stop_forces_ptt_off_before_disconnect
         [OF r, of "demo_env (\<lambda>r. (0.001, None)) (\<lambda>c. None)" "world_at 100", THEN conjunct2]
  show ?thesis
    by (simp add: is_connected_def rig_on_def world_at_def)
qed

text \<open>
  C3. Claim: \<^verbatim>\<open>stop\<close> leaves a shared Gateway's connection as it was, and disconnects
  only a Gateway the bridge created (\<^verbatim>\<open>owns_rig\<close>). The code sets the flag in
  \<^verbatim>\<open>__init__\<close> with the comment "Don't disconnect on cleanup", and \<^verbatim>\<open>stop\<close> never
  reads it: a bridge built on a connected, caller-supplied Gateway starts, and its
  \<^verbatim>\<open>stop\<close> disconnects that Gateway.
\<close>

theorem stop_disconnects_shared_rig:
  "start (demo_env (\<lambda>r. (0.001, Some (XNum 0))) (\<lambda>c. None)) True (bridge_init (Some rig_on))
       (world_at 100) =
     (True,
      \<lparr>br_rig = rig_on, owns_rig = False, server_socket = True, running = True,
       ptt_on_time = None\<rparr>,
      world_at 100)
   \<and> is_connected rig_on
   \<and> stop (demo_env (\<lambda>r. (0.001, Some (XNum 0))) (\<lambda>c. None))
       \<lparr>br_rig = rig_on, owns_rig = False, server_socket = True, running = True,
        ptt_on_time = None\<rparr> (world_at 100) =
     (\<lparr>br_rig = \<lparr>proxy = False, connected = False\<rparr>, owns_rig = False, server_socket = False,
       running = False, ptt_on_time = None\<rparr>,
      \<lparr>clock = 100.001, last_request_time = 0,
       trace = [Invoke (Call_set_ptt False), Request (Set_ptt 0) 100 False,
                Invoke Call_disconnect]\<rparr>)
   \<and> \<not> is_connected \<lparr>proxy = False, connected = False\<rparr>"
  by (simp add: start_def stop_def bridge_init_def connect_to_rig_def disconnect_def
      bridge_set_ptt_unfold set_ptt_unfold enter_def demo_env_def rig_on_def world_at_def
      is_connected_def Let_def)

text \<open>
  The watchdog. While the session is not older than the timeout, a pass of the monitor
  does nothing; once it is older, the pass calls the wrapper with \<^verbatim>\<open>False\<close>, and the
  session is cleared when the Gateway reports success.
\<close>

lemma ptt_monitor_check_idle:
  "ptt_on_time b = Some t \<Longrightarrow> clock w - t \<le> ptt_timeout \<Longrightarrow> ptt_monitor_check e b w = (b, w)"
  by (simp add: ptt_monitor_check_def)

lemma ptt_monitor_check_fires:
  assumes "ptt_on_time b = Some t" and "t \<noteq> 0" and "ptt_timeout < clock w - t"
  shows "trace (snd (ptt_monitor_check e b w)) =
           trace w @ [Invoke (Call_set_ptt False)] @
           (if is_connected (br_rig b) then [Request (Set_ptt 0) (clock w) False] else [])
         \<and> ptt_on_time (fst (ptt_monitor_check e b w)) =
             (if fst (set_ptt e (br_rig b) False w) then None else Some t)"
  using assms by (simp add: ptt_monitor_check_def bridge_set_ptt_unfold set_ptt_trace)

text \<open>
  C2. Claim: if PTT is set on through the bridge at time \<open>T\<close> and no PTT-off occurs before
  \<open>T + 180\<close>, the watchdog forces PTT off within one tick after \<open>T + 180\<close>. The code
  restarts the session timer at every successful PTT-on, also when a session is already
  open. With \<^verbatim>\<open>T 1\<close> received at time 1000 and again at time 1100, no PTT-off in
  between, and the watchdog waking every second from 1000.5 to 1181.5, no pass forces
  PTT off: after the wake at 1181.5 the session is still open (timed from 1100) and the
  only requests made are the two \<^verbatim>\<open>set_ptt(1)\<close>.
\<close>

theorem rekeyed_ptt_outlives_timeout:
  "bridge_run (demo_env (\<lambda>r. (0, Some (XNum 0))) (\<lambda>c. None))
     ([(1000, Client ''T 1'')] @ map (\<lambda>k. (1000.5 + real k, Watchdog)) [0..<100] @
      [(1100, Client ''T 1'')] @ map (\<lambda>k. (1100.5 + real k, Watchdog)) [0..<82])
     (\<lparr>br_rig = rig_on, owns_rig = True, server_socket = True, running = True,
       ptt_on_time = None\<rparr>, world_at 1000) =
   (\<lparr>br_rig = rig_on, owns_rig = True, server_socket = True, running = True,
     ptt_on_time = Some 1100\<rparr>,
    \<lparr>clock = 1181.5, last_request_time = 0,
     trace = [Invoke (Call_set_ptt True), Request (Set_ptt 1) 1000 False,
              Invoke (Call_set_ptt True), Request (Set_ptt 1) 1100 False]\<rparr>)"
  by (simp add: bridge_run_def bridge_step_def process_command_def py_split_def is_space_def
      ptt_monitor_check_def bridge_set_ptt_unfold set_ptt_unfold enter_def demo_env_def
      decimal_def digit_val_def rig_on_def world_at_def is_connected_def ptt_timeout_def
      rprt_ok_def rprt_fail_def upt_rec [of _ "numeral _"] Let_def)

subsection \<open>Mode translation\<close>

text \<open>The reverse dictionary, entry by entry.\<close>

lemma mode_map_reverse_table:
  "mode_map_reverse =
     [''USB'' \<mapsto> ''PKTUSB'', ''LSB'' \<mapsto> ''PKTLSB'', ''CW'' \<mapsto> ''CW'', ''CW-R'' \<mapsto> ''CWR'',
      ''AM'' \<mapsto> ''AM'', ''FM'' \<mapsto> ''FM'', ''RTTY'' \<mapsto> ''RTTY'', ''RTTY-R'' \<mapsto> ''RTTYR'']"
  by (rule ext) (simp add: mode_map_reverse_def mode_map_def)

lemma set_mode_trace:
  "trace (snd (set_mode e rc mode w)) =
     trace w @ [Invoke (Call_set_mode mode)] @
     (if is_connected rc \<and> py_upper mode \<in> set valid_modes
      then [Request (Set_mode (py_upper mode)) (next_start w) True] else [])"
  by (auto simp add: set_mode_def safe_call_unfold enter_def next_start_def Let_def
      split: option.splits)

text \<open>The \<^verbatim>\<open>M\<close> and \<^verbatim>\<open>m\<close> branches of \<^verbatim>\<open>_process_command\<close>.\<close>

lemma process_command_M:
  "py_split command = ''M'' # a # rest \<Longrightarrow>
   process_command e b command w =
     (case set_mode e (br_rig b) (mode_map_get (py_upper a) ''USB'') w of
        (ok, w') \<Rightarrow> ((if ok then rprt_ok else rprt_fail), b, w'))"
  by (auto simp add: process_command_def Let_def split: prod.splits bool.splits)

lemma process_command_m:
  "py_split command = [''m''] \<Longrightarrow> get_mode e (br_rig b) w = (Some (XStr s), w') \<Longrightarrow> s \<noteq> [] \<Longrightarrow>
   process_command e b command w =
     ((case mode_map_reverse s of Some k \<Rightarrow> k | None \<Rightarrow> ''USB'') @ [newline] @ ''0'', b, w')"
  by (simp add: process_command_def)

lemma split_M_CWR: "py_split ''M CWR'' = [''M'', ''CWR'']"
  by (simp add: py_split_def is_space_def)

lemma split_m: "py_split ''m'' = [''m'']"
  by (simp add: py_split_def is_space_def)

text \<open>What holds of each entry of \<^verbatim>\<open>mode_map\<close>.\<close>

lemma mode_map_entry_facts:
  assumes "(k, v) \<in> set mode_map"
  shows "py_split (''M '' @ k) = [''M'', k]"
    and "py_upper k = k" and "py_upper v = v"
    and "mode_map_get k dflt = v"
    and "v \<in> set valid_modes"
proof -
  from assms have c: "k = ''USB'' \<and> v = ''USB'' \<or> k = ''LSB'' \<and> v = ''LSB'' \<or>
      k = ''CW'' \<and> v = ''CW'' \<or> k = ''CWR'' \<and> v = ''CW-R'' \<or>
      k = ''AM'' \<and> v = ''AM'' \<or> k = ''FM'' \<and> v = ''FM'' \<or>
      k = ''RTTY'' \<and> v = ''RTTY'' \<or> k = ''RTTYR'' \<and> v = ''RTTY-R'' \<or>
      k = ''PKTUSB'' \<and> v = ''USB'' \<or> k = ''PKTLSB'' \<and> v = ''LSB''"
    by (simp add: mode_map_def)
  from c show "py_split (''M '' @ k) = [''M'', k]"
    by (elim disjE conjE) (simp_all add: py_split_def is_space_def)
  from c show "py_upper k = k"
    by (elim disjE conjE) (simp_all add: py_upper_def upper_char_def)
  from c show "py_upper v = v"
    by (elim disjE conjE) (simp_all add: py_upper_def upper_char_def)
  from c show "mode_map_get k dflt = v"
    by (elim disjE conjE) (simp_all add: mode_map_get_def mode_map_def)
  from c show "v \<in> set valid_modes"
    by (elim disjE conjE) (simp_all add: valid_modes_def)
qed

text \<open>
  C8. \<^verbatim>\<open>mode_map\<close> sends the ten external names to their internal counterparts, with
  \<^verbatim>\<open>PKTUSB\<close> and \<^verbatim>\<open>PKTLSB\<close> going to \<^verbatim>\<open>USB\<close> and \<^verbatim>\<open>LSB\<close>, and has no other
  key. The reverse dictionary has the eight internal modes as keys; for any other string
  the lookup with default gives \<^verbatim>\<open>USB\<close>, and so \<^verbatim>\<open>m\<close> replies \<^verbatim>\<open>USB\<close>, a newline
  and \<^verbatim>\<open>0\<close> when the Gateway reports such a mode. The command \<^verbatim>\<open>M CWR\<close> calls
  \<^verbatim>\<open>set_mode\<close> with \<^verbatim>\<open>CW-R\<close> (and the request carries \<^verbatim>\<open>CW-R\<close> when the Gateway is
  connected). When the Gateway reports \<^verbatim>\<open>CW-R\<close>, the command \<^verbatim>\<open>m\<close> replies
  \<^verbatim>\<open>CWR\<close>, a newline and \<^verbatim>\<open>0\<close>. The same holds through the bridge for every entry:
  for each pair \<open>(k, v)\<close> of \<^verbatim>\<open>mode_map\<close> the lookup of \<open>k\<close> gives \<open>v\<close> whatever the
  default, the command \<^verbatim>\<open>M k\<close> calls \<^verbatim>\<open>set_mode\<close> with \<open>v\<close> and replies \<^verbatim>\<open>RPRT 0\<close>
  exactly when that call succeeds; and for each entry \<open>s \<mapsto> h\<close> of the reverse dictionary
  the command \<^verbatim>\<open>m\<close> replies \<open>h\<close>, a newline and \<^verbatim>\<open>0\<close> when the Gateway reports \<open>s\<close>.
\<close>

theorem mode_translation:
  "map (map_of mode_map)
     [''USB'', ''LSB'', ''CW'', ''CWR'', ''AM'', ''FM'', ''RTTY'', ''RTTYR'', ''PKTUSB'', ''PKTLSB''] =
   map Some
     [''USB'', ''LSB'', ''CW'', ''CW-R'', ''AM'', ''FM'', ''RTTY'', ''RTTY-R'', ''USB'', ''LSB'']
   \<and> dom (map_of mode_map) =
       {''USB'', ''LSB'', ''CW'', ''CWR'', ''AM'', ''FM'', ''RTTY'', ''RTTYR'', ''PKTUSB'', ''PKTLSB''}
   \<and> dom mode_map_reverse =
       {''USB'', ''LSB'', ''CW'', ''CW-R'', ''AM'', ''FM'', ''RTTY'', ''RTTY-R''}
   \<and> (m \<notin> dom mode_map_reverse \<longrightarrow> mode_map_reverse_get (XStr m) = Some ''USB'')
   \<and> (m \<notin> dom mode_map_reverse \<and> m \<noteq> [] \<and> get_mode e (br_rig b) w = (Some (XStr m), w') \<longrightarrow>
        process_command e b ''m'' w = (''USB'' @ [newline] @ ''0'', b, w'))
   \<and> trace (snd (snd (process_command e b ''M CWR'' w))) =
       trace w @ [Invoke (Call_set_mode ''CW-R'')] @
       (if is_connected (br_rig b) then [Request (Set_mode ''CW-R'') (next_start w) True] else [])
   \<and> (get_mode e (br_rig b) w = (Some (XStr ''CW-R''), w') \<longrightarrow>
        process_command e b ''m'' w = (''CWR'' @ [newline] @ ''0'', b, w'))
   \<and> ((k, v) \<in> set mode_map \<longrightarrow>
        mode_map_get k dflt = v
        \<and> trace (snd (snd (process_command e b (''M '' @ k) w))) =
            trace w @ [Invoke (Call_set_mode v)] @
            (if is_connected (br_rig b) then [Request (Set_mode v) (next_start w) True] else [])
        \<and> fst (process_command e b (''M '' @ k) w) =
            (if fst (set_mode e (br_rig b) v w) then ''RPRT 0'' else ''RPRT -1''))
   \<and> (mode_map_reverse s = Some h \<and> get_mode e (br_rig b) w = (Some (XStr s), w') \<longrightarrow>
        process_command e b ''m'' w = (h @ [newline] @ ''0'', b, w'))"
proof -
  have fwd: "map (map_of mode_map)
     [''USB'', ''LSB'', ''CW'', ''CWR'', ''AM'', ''FM'', ''RTTY'', ''RTTYR'', ''PKTUSB'', ''PKTLSB''] =
   map Some
     [''USB'', ''LSB'', ''CW'', ''CW-R'', ''AM'', ''FM'', ''RTTY'', ''RTTY-R'', ''USB'', ''LSB'']"
    by (simp add: mode_map_def)
  have dm: "dom (map_of mode_map) =
       {''USB'', ''LSB'', ''CW'', ''CWR'', ''AM'', ''FM'', ''RTTY'', ''RTTYR'', ''PKTUSB'', ''PKTLSB''}"
    unfolding dom_map_of_conv_image_fst by (simp add: mode_map_def)
  have rdm: "dom mode_map_reverse =
       {''USB'', ''LSB'', ''CW'', ''CW-R'', ''AM'', ''FM'', ''RTTY'', ''RTTY-R''}"
    by (auto simp add: mode_map_reverse_table split: if_splits)
  have dflt: "m \<notin> dom mode_map_reverse \<longrightarrow> mode_map_reverse_get (XStr m) = Some ''USB''"
    by (auto simp add: domIff)
  have dfltm: "m \<notin> dom mode_map_reverse \<and> m \<noteq> [] \<and>
        get_mode e (br_rig b) w = (Some (XStr m), w') \<longrightarrow>
        process_command e b ''m'' w = (''USB'' @ [newline] @ ''0'', b, w')"
    using process_command_m [OF split_m, of e b w m w'] by (auto simp add: domIff)
  have up: "py_upper ''CWR'' = ''CWR''" "py_upper ''CW-R'' = ''CW-R''"
    by (simp_all add: py_upper_def upper_char_def)
  have get: "mode_map_get ''CWR'' ''USB'' = ''CW-R''"
    by (simp add: mode_map_get_def mode_map_def)
  have "process_command e b ''M CWR'' w =
          (case set_mode e (br_rig b) ''CW-R'' w of
             (ok, w') \<Rightarrow> ((if ok then rprt_ok else rprt_fail), b, w'))"
    using process_command_M [OF split_M_CWR, of e b w] by (simp add: up get)
  then have setm: "trace (snd (snd (process_command e b ''M CWR'' w))) =
       trace w @ [Invoke (Call_set_mode ''CW-R'')] @
       (if is_connected (br_rig b) then [Request (Set_mode ''CW-R'') (next_start w) True] else [])"
    using set_mode_trace [of e "br_rig b" "''CW-R''" w]
    by (simp add: up valid_modes_def split: prod.splits)
  have getm: "get_mode e (br_rig b) w = (Some (XStr ''CW-R''), w') \<longrightarrow>
        process_command e b ''m'' w = (''CWR'' @ [newline] @ ''0'', b, w')"
    using process_command_m [OF split_m, of e b w "''CW-R''" w']
    by (simp add: mode_map_reverse_table)
  have each: "(k, v) \<in> set mode_map \<longrightarrow>
        mode_map_get k dflt = v
        \<and> trace (snd (snd (process_command e b (''M '' @ k) w))) =
            trace w @ [Invoke (Call_set_mode v)] @
            (if is_connected (br_rig b) then [Request (Set_mode v) (next_start w) True] else [])
        \<and> fst (process_command e b (''M '' @ k) w) =
            (if fst (set_mode e (br_rig b) v w) then ''RPRT 0'' else ''RPRT -1'')"
  proof
    assume kv: "(k, v) \<in> set mode_map"
    then have sp: "py_split (''M '' @ k) = ''M'' # k # []"
      by (rule mode_map_entry_facts(1))
    from kv have upk: "py_upper k = k" and upv: "py_upper v = v"
      by (rule mode_map_entry_facts(2), rule mode_map_entry_facts(3))
    from kv have lk: "mode_map_get k dflt = v" and lk2: "mode_map_get k ''USB'' = v"
      by (rule mode_map_entry_facts(4), rule mode_map_entry_facts(4))
    from kv have valid: "v \<in> set valid_modes"
      by (rule mode_map_entry_facts(5))
    have pc: "process_command e b (''M '' @ k) w =
          (case set_mode e (br_rig b) v w of
             (ok, w') \<Rightarrow> ((if ok then rprt_ok else rprt_fail), b, w'))"
      using process_command_M [OF sp, of e b w] by (simp add: upk lk2)
    have tr: "trace (snd (snd (process_command e b (''M '' @ k) w))) =
            trace w @ [Invoke (Call_set_mode v)] @
            (if is_connected (br_rig b) then [Request (Set_mode v) (next_start w) True] else [])"
      using pc set_mode_trace [of e "br_rig b" v w] valid
      by (simp add: upv split: prod.splits)
    have rp: "fst (process_command e b (''M '' @ k) w) =
            (if fst (set_mode e (br_rig b) v w) then ''RPRT 0'' else ''RPRT -1'')"
      using pc by (simp add: rprt_ok_def rprt_fail_def split: prod.splits)
    from lk tr rp show
      "mode_map_get k dflt = v
        \<and> trace (snd (snd (process_command e b (''M '' @ k) w))) =
            trace w @ [Invoke (Call_set_mode v)] @
            (if is_connected (br_rig b) then [Request (Set_mode v) (next_start w) True] else [])
        \<and> fst (process_command e b (''M '' @ k) w) =
            (if fst (set_mode e (br_rig b) v w) then ''RPRT 0'' else ''RPRT -1'')"
      by simp
  qed
  have rev_entry: "mode_map_reverse s = Some h \<and> get_mode e (br_rig b) w = (Some (XStr s), w') \<longrightarrow>
        process_command e b ''m'' w = (h @ [newline] @ ''0'', b, w')"
  proof
    assume a: "mode_map_reverse s = Some h \<and> get_mode e (br_rig b) w = (Some (XStr s), w')"
    then have "s \<in> dom mode_map_reverse" by auto
    with rdm have "s \<noteq> []" by auto
    with a process_command_m [OF split_m, of e b w s w']
    show "process_command e b ''m'' w = (h @ [newline] @ ''0'', b, w')"
      by simp
  qed
  show ?thesis
    using fwd dm rdm dflt dfltm setm getm each rev_entry by (intro conjI)
qed

theorem mode_translation_witness:
  "''DIGI'' \<notin> dom mode_map_reverse
   \<and> mode_map_reverse_get (XStr ''DIGI'') = Some ''USB''
   \<and> get_mode (demo_env (\<lambda>r. (0, Some (XStr ''DIGI''))) (\<lambda>c. None)) rig_on (world_at 100) =
       (Some (XStr ''DIGI''),
        \<lparr>clock = 100, last_request_time = 100,
         trace = [Invoke Call_get_mode, Request Get_mode 100 True]\<rparr>)
   \<and> process_command (demo_env (\<lambda>r. (0, Some (XStr ''DIGI''))) (\<lambda>c. None))
        \<lparr>br_rig = rig_on, owns_rig = True, server_socket = True, running = True,
         ptt_on_time = None\<rparr> ''m'' (world_at 100) =
       (''USB'' @ [newline] @ ''0'',
        \<lparr>br_rig = rig_on, owns_rig = True, server_socket = True, running = True,
         ptt_on_time = None\<rparr>,
        \<lparr>clock = 100, last_request_time = 100,
         trace = [Invoke Call_get_mode, Request Get_mode 100 True]\<rparr>)
   \<and> get_mode (demo_env (\<lambda>r. (0, Some (XStr ''CW-R''))) (\<lambda>c. None)) rig_on (world_at 100) =
       (Some (XStr ''CW-R''),
        \<lparr>clock = 100, last_request_time = 100,
         trace = [Invoke Call_get_mode, Request Get_mode 100 True]\<rparr>)
   \<and> process_command (demo_env (\<lambda>r. (0, Some (XStr ''CW-R''))) (\<lambda>c. None))
        \<lparr>br_rig = rig_on, owns_rig = True, server_socket = True, running = True,
         ptt_on_time = None\<rparr> ''m'' (world_at 100) =
       (''CWR'' @ [newline] @ ''0'',
        \<lparr>br_rig = rig_on, owns_rig = True, server_socket = True, running = True,
         ptt_on_time = None\<rparr>,
        \<lparr>clock = 100, last_request_time = 100,
         trace = [Invoke Call_get_mode, Request Get_mode 100 True]\<rparr>)
   \<and> (''PKTLSB'', ''LSB'') \<in> set mode_map
   \<and> trace (snd (snd (process_command (demo_env (\<lambda>r. (0, Some (XStr ''CW-R''))) (\<lambda>c. None))
        \<lparr>br_rig = rig_on, owns_rig = True, server_socket = True, running = True,
         ptt_on_time = None\<rparr> ''M PKTLSB'' (world_at 100)))) =
       [Invoke (Call_set_mode ''LSB''), Request (Set_mode ''LSB'') 100 True]"
proof -
  have d: "''DIGI'' \<notin> dom mode_map_reverse"
    by (simp add: mode_map_reverse_table)
  have g1: "get_mode (demo_env (\<lambda>r. (0, Some (XStr ''DIGI''))) (\<lambda>c. None)) rig_on (world_at 100) =
       (Some (XStr ''DIGI''),
        \<lparr>clock = 100, last_request_time = 100,
         trace = [Invoke Call_get_mode, Request Get_mode 100 True]\<rparr>)"
    by (simp add: get_mode_def safe_call_unfold enter_def next_start_def demo_env_def rig_on_def
        world_at_def is_connected_def min_request_interval_def Let_def)
  have g2: "get_mode (demo_env (\<lambda>r. (0, Some (XStr ''CW-R''))) (\<lambda>c. None)) rig_on (world_at 100) =
       (Some (XStr ''CW-R''),
        \<lparr>clock = 100, last_request_time = 100,
         trace = [Invoke Call_get_mode, Request Get_mode 100 True]\<rparr>)"
    by (simp add: get_mode_def safe_call_unfold enter_def next_start_def demo_env_def rig_on_def
        world_at_def is_connected_def min_request_interval_def Let_def)
  note t1 = mode_translation
    [of "''DIGI''" "demo_env (\<lambda>r. (0, Some (XStr ''DIGI''))) (\<lambda>c. None)"
        "\<lparr>br_rig = rig_on, owns_rig = True, server_socket = True, running = True,
          ptt_on_time = None\<rparr>" "world_at 100"
        "\<lparr>clock = 100, last_request_time = 100,
          trace = [Invoke Call_get_mode, Request Get_mode 100 True]\<rparr>"]
  note t2 = mode_translation
    [of "''DIGI''" "demo_env (\<lambda>r. (0, Some (XStr ''CW-R''))) (\<lambda>c. None)"
        "\<lparr>br_rig = rig_on, owns_rig = True, server_socket = True, running = True,
          ptt_on_time = None\<rparr>" "world_at 100"
        "\<lparr>clock = 100, last_request_time = 100,
          trace = [Invoke Call_get_mode, Request Get_mode 100 True]\<rparr>"]
  have kv: "(''PKTLSB'', ''LSB'') \<in> set mode_map"
    by (simp add: mode_map_def)
  have t3: "trace (snd (snd (process_command (demo_env (\<lambda>r. (0, Some (XStr ''CW-R''))) (\<lambda>c. None))
        \<lparr>br_rig = rig_on, owns_rig = True, server_socket = True, running = True,
         ptt_on_time = None\<rparr> ''M PKTLSB'' (world_at 100)))) =
       [Invoke (Call_set_mode ''LSB''), Request (Set_mode ''LSB'') 100 True]"
    using kv mode_translation
      [where k = "''PKTLSB''" and v = "''LSB''"
         and e = "demo_env (\<lambda>r. (0, Some (XStr ''CW-R''))) (\<lambda>c. None)"
         and b = "\<lparr>br_rig = rig_on, owns_rig = True, server_socket = True, running = True,
                   ptt_on_time = None\<rparr>"
         and w = "world_at 100"]
    by (simp add: next_start_def rig_on_def world_at_def is_connected_def
        min_request_interval_def)
  from d g1 g2 t1 t2 kv t3 show ?thesis by simp
qed

text \<open>
  C9. In the reverse dictionary \<^verbatim>\<open>USB\<close> maps to \<^verbatim>\<open>PKTUSB\<close> and \<^verbatim>\<open>LSB\<close> to
  \<^verbatim>\<open>PKTLSB\<close>, the later entries of \<^verbatim>\<open>mode_map\<close> having overwritten the earlier ones.
  So whenever the Gateway reports \<^verbatim>\<open>USB\<close>, the command \<^verbatim>\<open>m\<close> replies \<^verbatim>\<open>PKTUSB\<close>, a
  newline and \<^verbatim>\<open>0\<close>, and not \<^verbatim>\<open>USB\<close>, a newline and \<^verbatim>\<open>0\<close>; likewise
  \<^verbatim>\<open>PKTLSB\<close> for \<^verbatim>\<open>LSB\<close>.
\<close>

theorem usb_reported_as_pktusb:
  "mode_map_reverse ''USB'' = Some ''PKTUSB''
   \<and> mode_map_reverse ''LSB'' = Some ''PKTLSB''
   \<and> (get_mode e (br_rig b) w = (Some (XStr ''USB''), w') \<longrightarrow>
        process_command e b ''m'' w = (''PKTUSB'' @ [newline] @ ''0'', b, w')
        \<and> fst (process_command e b ''m'' w) \<noteq> ''USB'' @ [newline] @ ''0'')
   \<and> (get_mode e (br_rig b) w = (Some (XStr ''LSB''), w') \<longrightarrow>
        process_command e b ''m'' w = (''PKTLSB'' @ [newline] @ ''0'', b, w')
        \<and> fst (process_command e b ''m'' w) \<noteq> ''LSB'' @ [newline] @ ''0'')"
  using process_command_m [OF split_m, of e b w "''USB''" w']
    process_command_m [OF split_m, of e b w "''LSB''" w']
  by (simp add: mode_map_reverse_table)

theorem usb_reported_as_pktusb_witness:
  "get_mode (demo_env (\<lambda>r. (0, Some (XStr ''USB''))) (\<lambda>c. None)) rig_on (world_at 100) =
       (Some (XStr ''USB''),
        \<lparr>clock = 100, last_request_time = 100,
         trace = [Invoke Call_get_mode, Request Get_mode 100 True]\<rparr>)
   \<and> process_command (demo_env (\<lambda>r. (0, Some (XStr ''USB''))) (\<lambda>c. None))
        \<lparr>br_rig = rig_on, owns_rig = True, server_socket = True, running = True,
         ptt_on_time = None\<rparr> ''m'' (world_at 100) =
       (''PKTUSB'' @ [newline] @ ''0'',
        \<lparr>br_rig = rig_on, owns_rig = True, server_socket = True, running = True,
         ptt_on_time = None\<rparr>,
        \<lparr>clock = 100, last_request_time = 100,
         trace = [Invoke Call_get_mode, Request Get_mode 100 True]\<rparr>)
   \<and> get_mode (demo_env (\<lambda>r. (0, Some (XStr ''LSB''))) (\<lambda>c. None)) rig_on (world_at 100) =
       (Some (XStr ''LSB''),
        \<lparr>clock = 100, last_request_time = 100,
         trace = [Invoke Call_get_mode, Request Get_mode 100 True]\<rparr>)
   \<and> process_command (demo_env (\<lambda>r. (0, Some (XStr ''LSB''))) (\<lambda>c. None))
        \<lparr>br_rig = rig_on, owns_rig = True, server_socket = True, running = True,
         ptt_on_time = None\<rparr> ''m'' (world_at 100) =
       (''PKTLSB'' @ [newline] @ ''0'',
        \<lparr>br_rig = rig_on, owns_rig = True, server_socket = True, running = True,
         ptt_on_time = None\<rparr>,
        \<lparr>clock = 100, last_request_time = 100,
         trace = [Invoke Call_get_mode, Request Get_mode 100 True]\<rparr>)"
proof -
  have g1: "get_mode (demo_env (\<lambda>r. (0, Some (XStr ''USB''))) (\<lambda>c. None)) rig_on (world_at 100) =
       (Some (XStr ''USB''),
        \<lparr>clock = 100, last_request_time = 100,
         trace = [Invoke Call_get_mode, Request Get_mode 100 True]\<rparr>)"
    by (simp add: get_mode_def safe_call_unfold enter_def next_start_def demo_env_def rig_on_def
        world_at_def is_connected_def min_request_interval_def Let_def)
  have g2: "get_mode (demo_env (\<lambda>r. (0, Some (XStr ''LSB''))) (\<lambda>c. None)) rig_on (world_at 100) =
       (Some (XStr ''LSB''),
        \<lparr>clock = 100, last_request_time = 100,
         trace = [Invoke Call_get_mode, Request Get_mode 100 True]\<rparr>)"
    by (simp add: get_mode_def safe_call_unfold enter_def next_start_def demo_env_def rig_on_def
        world_at_def is_connected_def min_request_interval_def Let_def)
  note t1 = usb_reported_as_pktusb
    [of "demo_env (\<lambda>r. (0, Some (XStr ''USB''))) (\<lambda>c. None)"
        "\<lparr>br_rig = rig_on, owns_rig = True, server_socket = True, running = True,
          ptt_on_time = None\<rparr>" "world_at 100"
        "\<lparr>clock = 100, last_request_time = 100,
          trace = [Invoke Call_get_mode, Request Get_mode 100 True]\<rparr>"]
  note t2 = usb_reported_as_pktusb
    [of "demo_env (\<lambda>r. (0, Some (XStr ''LSB''))) (\<lambda>c. None)"
        "\<lparr>br_rig = rig_on, owns_rig = True, server_socket = True, running = True,
          ptt_on_time = None\<rparr>" "world_at 100"
        "\<lparr>clock = 100, last_request_time = 100,
          trace = [Invoke Call_get_mode, Request Get_mode 100 True]\<rparr>"]
  from g1 g2 t1 t2 show ?thesis by simp
qed

text \<open>
  C10. For every command whose first word is \<^verbatim>\<open>M\<close> and whose second word, upper-cased,
  is not a key of \<^verbatim>\<open>mode_map\<close>, the bridge does exactly what it does for \<^verbatim>\<open>M USB\<close>:
  it calls \<^verbatim>\<open>set_mode\<close> with \<^verbatim>\<open>USB\<close>, and replies \<^verbatim>\<open>RPRT 0\<close> when that call
  succeeds and \<^verbatim>\<open>RPRT -1\<close> only when it fails.
\<close>

theorem unknown_mode_becomes_usb:
  assumes "py_split command = ''M'' # word # rest"
    and "py_upper word \<notin> fst ` set mode_map"
  shows "process_command e b command w = process_command e b ''M USB'' w
         \<and> trace (snd (snd (process_command e b command w))) =
             trace w @ [Invoke (Call_set_mode ''USB'')] @
             (if is_connected (br_rig b)
              then [Request (Set_mode ''USB'') (next_start w) True] else [])
         \<and> fst (process_command e b command w) =
             (if fst (set_mode e (br_rig b) ''USB'' w) then ''RPRT 0'' else ''RPRT -1'')"
proof -
  have none: "map_of mode_map (py_upper word) = None"
    using assms(2) by (simp add: map_of_eq_None_iff)
  have sp: "py_split ''M USB'' = [''M'', ''USB'']"
    by (simp add: py_split_def is_space_def)
  have up: "py_upper ''USB'' = ''USB''"
    by (simp add: py_upper_def upper_char_def)
  have usb: "mode_map_get ''USB'' ''USB'' = ''USB''"
    by (simp add: mode_map_get_def mode_map_def)
  have a: "process_command e b command w =
          (case set_mode e (br_rig b) ''USB'' w of
             (ok, w') \<Rightarrow> ((if ok then rprt_ok else rprt_fail), b, w'))"
    using process_command_M [OF assms(1), of e b w] none by (simp add: mode_map_get_def)
  have b: "process_command e b ''M USB'' w =
          (case set_mode e (br_rig b) ''USB'' w of
             (ok, w') \<Rightarrow> ((if ok then rprt_ok else rprt_fail), b, w'))"
    using process_command_M [OF sp, of e b w] by (simp add: up usb)
  have tr: "trace (snd (snd (process_command e b command w))) =
             trace w @ [Invoke (Call_set_mode ''USB'')] @
             (if is_connected (br_rig b)
              then [Request (Set_mode ''USB'') (next_start w) True] else [])"
    using a set_mode_trace [of e "br_rig b" "''USB''" w]
    by (simp add: up valid_modes_def split: prod.splits)
  have rp: "fst (process_command e b command w) =
             (if fst (set_mode e (br_rig b) ''USB'' w) then ''RPRT 0'' else ''RPRT -1'')"
    using a by (simp add: rprt_ok_def rprt_fail_def split: prod.splits)
  from a b tr rp show ?thesis by simp
qed

theorem unknown_mode_becomes_usb_witness:
  "py_split ''M digi'' = [''M'', ''digi'']
   \<and> py_upper ''digi'' \<notin> fst ` set mode_map
   \<and> trace (snd (snd (process_command (demo_env (\<lambda>r. (0, Some (XStr []))) (\<lambda>c. None))
        \<lparr>br_rig = rig_on, owns_rig = True, server_socket = True, running = True,
         ptt_on_time = None\<rparr> ''M digi'' (world_at 100)))) =
       [Invoke (Call_set_mode ''USB''), Request (Set_mode ''USB'') 100 True]
   \<and> fst (process_command (demo_env (\<lambda>r. (0, Some (XStr []))) (\<lambda>c. None))
        \<lparr>br_rig = rig_on, owns_rig = True, server_socket = True, running = True,
         ptt_on_time = None\<rparr> ''M digi'' (world_at 100)) = ''RPRT 0''"
proof -
  have sp: "py_split ''M digi'' = ''M'' # ''digi'' # []"
    by (simp add: py_split_def is_space_def)
  have nk: "py_upper ''digi'' \<notin> fst ` set mode_map"
    by (simp add: py_upper_def upper_char_def mode_map_def)
  have ok: "fst (set_mode (demo_env (\<lambda>r. (0, Some (XStr []))) (\<lambda>c. None)) rig_on ''USB''
              (world_at 100))"
    by (simp add: set_mode_def safe_call_unfold enter_def demo_env_def rig_on_def
        is_connected_def py_upper_def upper_char_def valid_modes_def Let_def)
  from unknown_mode_becomes_usb [OF sp nk,
      of "demo_env (\<lambda>r. (0, Some (XStr []))) (\<lambda>c. None)"
         "\<lparr>br_rig = rig_on, owns_rig = True, server_socket = True, running = True,
           ptt_on_time = None\<rparr>" "world_at 100", THEN conjunct2]
  show ?thesis
    using sp nk ok
    by (simp add: next_start_def rig_on_def world_at_def is_connected_def
        min_request_interval_def)
qed

section \<open>Properties of the synchronizer\<close>

text \<open>What each operation adds to the events.\<close>

lemma get_frequency_trace:
  "trace (snd (get_frequency e rc w)) =
     trace w @ [Invoke Call_get_frequency] @
     (if is_connected rc then [Request Get_vfo (next_start w) True] else [])"
  by (auto simp add: get_frequency_def safe_call_unfold enter_def next_start_def Let_def
      split: option.splits)

lemma get_frequency_Some:
  "get_frequency e rc w = (Some f, w1) \<Longrightarrow> is_connected rc"
  by (auto simp add: get_frequency_def Let_def split: if_splits)

lemma get_mode_trace:
  "trace (snd (get_mode e rc w)) =
     trace w @ [Invoke Call_get_mode] @
     (if is_connected rc then [Request Get_mode (next_start w) True] else [])"
  by (auto simp add: get_mode_def safe_call_unfold enter_def next_start_def Let_def)

lemma set_frequency_trace:
  "trace (snd (set_frequency e rc f w)) =
     trace w @ [Invoke (Call_set_frequency f)] @
     (if is_connected rc \<and> \<not> float_overflows f
      then [Request (Set_vfo f) (next_start w) True] else [])"
  by (auto simp add: set_frequency_def safe_call_unfold enter_def next_start_def Let_def
      split: option.splits)

lemma set_frequency_overflow:
  "float_overflows f \<Longrightarrow> \<not> fst (set_frequency e rc f w)"
  by (simp add: set_frequency_def Let_def)

lemma send_command_trace:
  "trace (snd (snd (send_command e sd c w))) =
     trace w @ (if sdr_is_connected sd then [Display c] else [])"
  by (auto simp add: send_command_def split: option.splits)

lemma send_command_Some:
  "send_command e sd c w = (Some r, sd', w') \<Longrightarrow> sdr_is_connected sd \<and> sd' = sd"
  by (auto simp add: send_command_def split: if_splits option.splits)

lemma sdr_get_frequency_trace:
  "trace (snd (snd (sdr_get_frequency e sd w))) =
     trace w @ (if sdr_is_connected sd then [Display Sdr_f] else [])"
  using send_command_trace [of e sd Sdr_f w]
  by (auto simp add: sdr_get_frequency_def split: prod.splits option.splits)

lemma sdr_get_frequency_Some:
  "sdr_get_frequency e sd w = (Some f, sd', w') \<Longrightarrow> sdr_is_connected sd \<and> sd' = sd"
  by (auto simp add: sdr_get_frequency_def split: prod.splits option.splits if_splits
      dest: send_command_Some)

lemma sdr_set_frequency_trace:
  "trace (snd (snd (sdr_set_frequency e sd f w))) =
     trace w @ (if sdr_is_connected sd then [Display (Sdr_F f)] else [])"
  using send_command_trace [of e sd "Sdr_F f" w]
  by (auto simp add: sdr_set_frequency_def split: prod.splits option.splits)

lemma sdr_set_mode_trace:
  "trace (snd (snd (sdr_set_mode e sd m w))) =
     trace w @ (if sdr_is_connected sd then [Display (Sdr_M m)] else [])"
  using send_command_trace [of e sd "Sdr_M m" w]
  by (auto simp add: sdr_set_mode_def split: prod.splits option.splits)

text \<open>
  The mode branch leaves the frequency cursors alone and adds at most one event, the mode
  sent to the display.
\<close>

lemma sync_mode_frame:
  assumes "sync_mode e s m w = (ok, s', w')"
  shows "last_rig_frequency s' = last_rig_frequency s
         \<and> last_sdr_frequency s' = last_sdr_frequency s
         \<and> fs_rig s' = fs_rig s
         \<and> (trace w' = trace w \<or> trace w' = trace w @ [Display (Sdr_M m)])"
proof (cases "m = last_mode s")
  case True
  with assms show ?thesis by (simp add: sync_mode_def)
next
  case False
  obtain r sd w2 where r: "sdr_set_mode e (fs_sdr s) m w = (r, sd, w2)"
    by (cases "sdr_set_mode e (fs_sdr s) m w") auto
  from sdr_set_mode_trace [of e "fs_sdr s" m w] r
  have "trace w2 = trace w \<or> trace w2 = trace w @ [Display (Sdr_M m)]"
    by (simp split: if_splits)
  with assms False r show ?thesis
    by (cases r) (auto simp add: sync_mode_def)
qed

text \<open>The frequency branch, case by case.\<close>

lemma sync_frequency_rig_changed:
  assumes "rf \<noteq> last_rig_frequency s"
  shows "sync_frequency e s rf sf w =
           (fst (sdr_set_frequency e (fs_sdr s) rf w),
            (if fst (sdr_set_frequency e (fs_sdr s) rf w)
             then s\<lparr>fs_sdr := fst (snd (sdr_set_frequency e (fs_sdr s) rf w)),
                    last_rig_frequency := rf, last_sdr_frequency := rf\<rparr>
             else s\<lparr>fs_sdr := fst (snd (sdr_set_frequency e (fs_sdr s) rf w))\<rparr>),
            snd (snd (sdr_set_frequency e (fs_sdr s) rf w)))"
  using assms
  by (cases "sdr_set_frequency e (fs_sdr s) rf w")
     (auto simp add: sync_frequency_def Let_def split: bool.splits)

lemma sync_frequency_sdr_changed:
  assumes "rf = last_rig_frequency s" and "sf \<noteq> last_sdr_frequency s"
  shows "sync_frequency e s rf sf w =
           (fst (set_frequency e (fs_rig s) sf w),
            (if fst (set_frequency e (fs_rig s) sf w)
             then s\<lparr>last_sdr_frequency := sf, last_rig_frequency := sf\<rparr>
             else s),
            snd (set_frequency e (fs_rig s) sf w))"
  using assms
  by (cases "set_frequency e (fs_rig s) sf w")
     (auto simp add: sync_frequency_def Let_def split: bool.splits)

lemma sync_frequency_unchanged:
  assumes "rf = last_rig_frequency s" and "sf = last_sdr_frequency s"
  shows "sync_frequency e s rf sf w = (True, s, w)"
  using assms by (simp add: sync_frequency_def)

lemma sync_resolve_Some:
  "sync_resolve e s (Some rf) sfo (Some rm) w =
     (if fst (sync_frequency e s rf (case sfo of None \<Rightarrow> last_sdr_frequency s | Some f \<Rightarrow> f) w)
      then sync_mode e
             (fst (snd (sync_frequency e s rf
                (case sfo of None \<Rightarrow> last_sdr_frequency s | Some f \<Rightarrow> f) w))) rm
             (snd (snd (sync_frequency e s rf
                (case sfo of None \<Rightarrow> last_sdr_frequency s | Some f \<Rightarrow> f) w)))
      else sync_frequency e s rf (case sfo of None \<Rightarrow> last_sdr_frequency s | Some f \<Rightarrow> f) w)"
  by (cases "sync_frequency e s rf (case sfo of None \<Rightarrow> last_sdr_frequency s | Some f \<Rightarrow> f) w")
     (auto simp add: sync_resolve_def Let_def split: bool.splits)

lemma sync_resolve_abort:
  "rfo = None \<or> rmo = None \<Longrightarrow> sync_resolve e s rfo sfo rmo w = (False, s, w)"
  by (auto simp add: sync_resolve_def split: option.splits)

lemma sync_resolve_substitute:
  "sync_resolve e s (Some rf) None (Some rm) w =
   sync_resolve e s (Some rf) (Some (last_sdr_frequency s)) (Some rm) w"
  by (simp add: sync_resolve_def)

lemma sync_once_reads:
  assumes "get_frequency e (fs_rig s) w = (rfo, w1)"
    and "sdr_get_frequency e (fs_sdr s) w1 = (sfo, sd, w2)"
    and "get_mode e (fs_rig s) w2 = (rmo, w3)"
  shows "sync_once e s w = sync_resolve e (s\<lparr>fs_sdr := sd\<rparr>) rfo sfo rmo w3"
  using assms by (simp add: sync_once_def)

lemma reads_frequency_writes:
  assumes "get_frequency e rc w = (rfo, w1)"
    and "sdr_get_frequency e sd0 w1 = (sfo, sd, w2)"
    and "get_mode e rc w2 = (rmo, w3)"
  shows "frequency_writes (trace w3) = frequency_writes (trace w)"
    and "writes (trace w3) = writes (trace w)"
    and "rig_writes (trace w3) = rig_writes (trace w)"
    and "gateway_calls (trace w3) =
           gateway_calls (trace w) @ [Invoke Call_get_frequency, Invoke Call_get_mode]"
  using get_frequency_trace [of e rc w] sdr_get_frequency_trace [of e sd0 w1]
    get_mode_trace [of e rc w2] assms
  by (simp_all add: frequency_writes_def writes_def rig_writes_def gateway_calls_def)

text \<open>
  What the cycle adds after its reads, in each case: the frequency write, then perhaps
  the mode sent to the display.
\<close>

lemma sync_after_display_push:
  assumes res: "sync_resolve e s (Some rf) sfo (Some rm) w3 = (ok, s', w')"
    and ch: "rf \<noteq> last_rig_frequency s"
  shows "(trace w' =
            trace w3 @ (if sdr_is_connected (fs_sdr s) then [Display (Sdr_F rf)] else [])
          \<or> trace w' =
            trace w3 @ (if sdr_is_connected (fs_sdr s) then [Display (Sdr_F rf)] else []) @
            [Display (Sdr_M rm)])
         \<and> (if fst (sdr_set_frequency e (fs_sdr s) rf w3)
            then last_rig_frequency s' = rf \<and> last_sdr_frequency s' = rf
            else \<not> ok \<and> last_rig_frequency s' = last_rig_frequency s
                 \<and> last_sdr_frequency s' = last_sdr_frequency s)"
proof -
  let ?sf = "case sfo of None \<Rightarrow> last_sdr_frequency s | Some f \<Rightarrow> f"
  let ?r = "sdr_set_frequency e (fs_sdr s) rf w3"
  have sfq: "sync_frequency e s rf ?sf w3 =
           (fst ?r,
            (if fst ?r
             then s\<lparr>fs_sdr := fst (snd ?r), last_rig_frequency := rf, last_sdr_frequency := rf\<rparr>
             else s\<lparr>fs_sdr := fst (snd ?r)\<rparr>),
            snd (snd ?r))"
    using ch by (rule sync_frequency_rig_changed)
  have tr: "trace (snd (snd ?r)) =
              trace w3 @ (if sdr_is_connected (fs_sdr s) then [Display (Sdr_F rf)] else [])"
    by (rule sdr_set_frequency_trace)
  show ?thesis
  proof (cases "fst ?r")
    case True
    with res sfq have
      "sync_mode e (s\<lparr>fs_sdr := fst (snd ?r), last_rig_frequency := rf,
                      last_sdr_frequency := rf\<rparr>) rm (snd (snd ?r)) = (ok, s', w')"
      by (simp add: sync_resolve_Some)
    from sync_mode_frame [OF this] True tr show ?thesis by auto
  next
    case False
    with res sfq have "ok = False" "s' = s\<lparr>fs_sdr := fst (snd ?r)\<rparr>" "w' = snd (snd ?r)"
      by (auto simp add: sync_resolve_Some)
    with False tr show ?thesis by simp
  qed
qed

lemma sync_after_rig_push:
  assumes res: "sync_resolve e s (Some rf) (Some sf) (Some rm) w3 = (ok, s', w')"
    and same: "rf = last_rig_frequency s" and ch: "sf \<noteq> last_sdr_frequency s"
  shows "(trace w' =
            trace w3 @ [Invoke (Call_set_frequency sf)] @
            (if is_connected (fs_rig s) \<and> \<not> float_overflows sf
             then [Request (Set_vfo sf) (next_start w3) True] else [])
          \<or> trace w' =
            trace w3 @ [Invoke (Call_set_frequency sf)] @
            (if is_connected (fs_rig s) \<and> \<not> float_overflows sf
             then [Request (Set_vfo sf) (next_start w3) True] else []) @
            [Display (Sdr_M rm)])
         \<and> (if fst (set_frequency e (fs_rig s) sf w3)
            then last_rig_frequency s' = sf \<and> last_sdr_frequency s' = sf
            else \<not> ok \<and> last_rig_frequency s' = last_rig_frequency s
                 \<and> last_sdr_frequency s' = last_sdr_frequency s)"
proof -
  let ?r = "set_frequency e (fs_rig s) sf w3"
  have sfq: "sync_frequency e s rf sf w3 =
           (fst ?r,
            (if fst ?r then s\<lparr>last_sdr_frequency := sf, last_rig_frequency := sf\<rparr> else s),
            snd ?r)"
    using same ch by (rule sync_frequency_sdr_changed)
  have tr: "trace (snd ?r) =
              trace w3 @ [Invoke (Call_set_frequency sf)] @
              (if is_connected (fs_rig s) \<and> \<not> float_overflows sf
               then [Request (Set_vfo sf) (next_start w3) True] else [])"
    by (rule set_frequency_trace)
  show ?thesis
  proof (cases "fst ?r")
    case True
    with res sfq have
      "sync_mode e (s\<lparr>last_sdr_frequency := sf, last_rig_frequency := sf\<rparr>) rm (snd ?r) =
         (ok, s', w')"
      by (simp add: sync_resolve_Some)
    from sync_mode_frame [OF this] True tr show ?thesis by auto
  next
    case False
    with res sfq have "ok = False" "s' = s" "w' = snd ?r"
      by (auto simp add: sync_resolve_Some)
    with False tr show ?thesis by simp
  qed
qed

lemma sync_after_no_change:
  assumes res: "sync_resolve e s (Some rf) sfo (Some rm) w3 = (ok, s', w')"
    and same: "rf = last_rig_frequency s"
    and same2: "(case sfo of None \<Rightarrow> last_sdr_frequency s | Some f \<Rightarrow> f) = last_sdr_frequency s"
  shows "(trace w' = trace w3 \<or> trace w' = trace w3 @ [Display (Sdr_M rm)])
         \<and> last_rig_frequency s' = last_rig_frequency s
         \<and> last_sdr_frequency s' = last_sdr_frequency s"
proof -
  have "sync_frequency e s rf (case sfo of None \<Rightarrow> last_sdr_frequency s | Some f \<Rightarrow> f) w3 =
          (True, s, w3)"
    using same same2 by (rule sync_frequency_unchanged)
  with res have "sync_mode e s rm w3 = (ok, s', w')"
    by (simp add: sync_resolve_Some)
  from sync_mode_frame [OF this] show ?thesis by simp
qed

text \<open>The definitions to unfold when a cycle is evaluated on the example environments.\<close>

lemmas sync_eval =
  sync_once_def sync_resolve_def sync_frequency_def sync_mode_def
  get_frequency_def get_mode_def set_frequency_def
  sdr_get_frequency_def sdr_set_frequency_def sdr_set_mode_def send_command_def
  sdr_is_connected_def is_connected_def safe_call_unfold enter_def next_start_def
  min_request_interval_def py_trunc_def py_int_float_def double_overflows_def
  py_strip_def is_space_def
  sync_env_def sync_state_def demo_env_def decimal_def digit_val_def rig_on_def world_at_def
  Let_def

lemma sync_case_premises:
  assumes "fst (get_frequency e (fs_rig s) w) = Some rf"
    and "fst (sdr_get_frequency e (fs_sdr s) (snd (get_frequency e (fs_rig s) w))) = Some sf"
    and "fst (get_mode e (fs_rig s)
           (snd (snd (sdr_get_frequency e (fs_sdr s) (snd (get_frequency e (fs_rig s) w)))))) =
         Some rm"
  shows "get_frequency e (fs_rig s) w = (Some rf, snd (get_frequency e (fs_rig s) w))"
    and "sdr_get_frequency e (fs_sdr s) (snd (get_frequency e (fs_rig s) w)) =
           (Some sf,
            fst (snd (sdr_get_frequency e (fs_sdr s) (snd (get_frequency e (fs_rig s) w)))),
            snd (snd (sdr_get_frequency e (fs_sdr s) (snd (get_frequency e (fs_rig s) w)))))"
    and "get_mode e (fs_rig s)
           (snd (snd (sdr_get_frequency e (fs_sdr s) (snd (get_frequency e (fs_rig s) w))))) =
         (Some rm,
          snd (get_mode e (fs_rig s)
            (snd (snd (sdr_get_frequency e (fs_sdr s) (snd (get_frequency e (fs_rig s) w)))))))"
    and "sync_once e s w =
           (fst (sync_once e s w), fst (snd (sync_once e s w)), snd (snd (sync_once e s w)))"
  using assms by (simp_all add: prod_eq_iff)

lemma sync_reads_named:
  "get_frequency e (fs_rig s) w =
     (fst (get_frequency e (fs_rig s) w), snd (get_frequency e (fs_rig s) w))"
  "sdr_get_frequency e (fs_sdr s) w1 =
     (fst (sdr_get_frequency e (fs_sdr s) w1), fst (snd (sdr_get_frequency e (fs_sdr s) w1)),
      snd (snd (sdr_get_frequency e (fs_sdr s) w1)))"
  "get_mode e (fs_rig s) w2 = (fst (get_mode e (fs_rig s) w2), snd (get_mode e (fs_rig s) w2))"
  by simp_all

text \<open>
  A display reply of a one followed by zeros reads as a power of ten, and stripping
  leaves it as it is.
\<close>

lemma decimal_fold_zeros:
  "fold (\<lambda>c acc. case (acc, digit_val c) of
                    (Some n, Some d) \<Rightarrow> Some (10 * n + d)
                  | _ \<Rightarrow> None) (replicate n CHR ''0'') (Some k) = Some (k * 10 ^ n)"
  by (induction n arbitrary: k) (simp_all add: digit_val_def)

lemma decimal_one_zeros: "decimal (CHR ''1'' # replicate n CHR ''0'') = Some (10 ^ n)"
  using decimal_fold_zeros [of n 1] by (simp add: decimal_def digit_val_def)

lemma py_strip_one_zeros:
  "py_strip (CHR ''1'' # replicate n CHR ''0'') = CHR ''1'' # replicate n CHR ''0''"
proof -
  have "dropWhile is_space (replicate n CHR ''0'' @ [CHR ''1'']) =
          replicate n CHR ''0'' @ [CHR ''1'']"
    by (cases n) (simp_all add: is_space_def)
  then show ?thesis
    by (simp add: py_strip_def is_space_def)
qed

lemma float_overflows_examples:
  "float_overflows (10 ^ 400)" "\<not> float_overflows 200" "\<not> float_overflows 14074000"
  by (simp_all add: float_overflows_def double_overflows_def)

text \<open>
  C5. Claim: in a cycle whose reads succeed, (a) if both frequencies differ from their
  cursors the rig value is pushed to the display and, on write success, both cursors are
  set to it; (b) if only the rig changed, the rig value is pushed to the display only;
  (c) if only the display changed, the display value is pushed to the rig and both cursors
  are set to it; (d) if neither changed, no frequency is written. Clause (c) fails as
  stated. First, the cursors are set only when the write to the rig succeeds: the rig
  reads 100 Hz (its cursor), the display reads 200 Hz (cursor 100 Hz), the request
  \<^verbatim>\<open>set_vfo(200)\<close> is made and raises, the cycle returns \<^verbatim>\<open>False\<close> and both cursors
  are still 100 Hz. Second, a display value too large for a float never reaches the rig:
  the display reads \<open>10^400\<close>, \<^verbatim>\<open>set_frequency\<close> is called with it, no request is made,
  the cycle returns \<^verbatim>\<open>False\<close> and the cursors are still 100 Hz.
\<close>

theorem sync_failed_rig_write_counterexample:
  "sync_once (sync_env (Some (XNum 100)) None (Some ''200'')) sync_state (world_at 50) =
     (False, sync_state,
      \<lparr>clock = 50.1, last_request_time = 50.1,
       trace = [Invoke Call_get_frequency, Request Get_vfo 50 True, Display Sdr_f,
                Invoke Call_get_mode, Request Get_mode 50.05 True,
                Invoke (Call_set_frequency 200), Request (Set_vfo 200) 50.1 True]\<rparr>)
   \<and> sync_once (sync_env (Some (XNum 100)) (Some (XStr []))
         (Some (CHR ''1'' # replicate 400 CHR ''0''))) sync_state (world_at 50) =
     (False, sync_state,
      \<lparr>clock = 50.05, last_request_time = 50.05,
       trace = [Invoke Call_get_frequency, Request Get_vfo 50 True, Display Sdr_f,
                Invoke Call_get_mode, Request Get_mode 50.05 True,
                Invoke (Call_set_frequency (10 ^ 400))]\<rparr>)
   \<and> last_rig_frequency sync_state = 100 \<and> last_sdr_frequency sync_state = 100"
proof -
  have first: "sync_once (sync_env (Some (XNum 100)) None (Some ''200'')) sync_state
      (world_at 50) =
     (False, sync_state,
      \<lparr>clock = 50.1, last_request_time = 50.1,
       trace = [Invoke Call_get_frequency, Request Get_vfo 50 True, Display Sdr_f,
                Invoke Call_get_mode, Request Get_mode 50.05 True,
                Invoke (Call_set_frequency 200), Request (Set_vfo 200) 50.1 True]\<rparr>)"
    by (simp add: sync_eval float_overflows_def)
  have strip: "py_strip (CHR ''1'' # replicate 400 CHR ''0'') = CHR ''1'' # replicate 400 CHR ''0''"
    by (rule py_strip_one_zeros)
  have dec: "decimal (CHR ''1'' # replicate 400 CHR ''0'') = Some (10 ^ 400)"
    by (rule decimal_one_zeros)
  have ov: "float_overflows (10 ^ 400)"
    by (rule float_overflows_examples(1))
  have ne: "(10::int) ^ 400 \<noteq> 100"
    by simp
  have small: "\<not> double_overflows 100"
    by (simp add: double_overflows_def)
  have second: "sync_once (sync_env (Some (XNum 100)) (Some (XStr []))
         (Some (CHR ''1'' # replicate 400 CHR ''0''))) sync_state (world_at 50) =
     (False, sync_state,
      \<lparr>clock = 50.05, last_request_time = 50.05,
       trace = [Invoke Call_get_frequency, Request Get_vfo 50 True, Display Sdr_f,
                Invoke Call_get_mode, Request Get_mode 50.05 True,
                Invoke (Call_set_frequency (10 ^ 400))]\<rparr>)"
    using strip dec ov ne small
    by (simp add: sync_once_def sync_resolve_def sync_frequency_def sync_mode_def
        get_frequency_def get_mode_def set_frequency_def sdr_get_frequency_def
        send_command_def sdr_is_connected_def is_connected_def safe_call_unfold enter_def
        next_start_def min_request_interval_def py_trunc_def py_int_float_def
        sync_env_def sync_state_def demo_env_def rig_on_def world_at_def Let_def)
  from first second show ?thesis
    by (simp add: sync_state_def)
qed

text \<open>
  C5, amended. In a cycle in which the rig frequency, the display frequency and the rig mode
  are all read: (a), (b) when the rig frequency differs from its cursor, with or without a
  change on the display, the cycle writes one frequency, the rig value to the display, and
  makes no \<^verbatim>\<open>set_*\<close> request to the rig; (c) when only the display frequency differs
  from its cursor, \<^verbatim>\<open>set_frequency\<close> is called with the display value, and the cycle's
  only frequency write and only \<^verbatim>\<open>set_*\<close> request to the rig is \<^verbatim>\<open>set_vfo\<close> with that
  value, through \<^verbatim>\<open>_safe_call\<close>, unless the value is too large for a float, when there is
  none and the call fails; (d) when neither differs, no frequency is written and no
  \<^verbatim>\<open>set_*\<close> request is made. In (a), (b) and (c), when the write succeeds both cursors
  are set to the value written; when it fails the cycle returns \<^verbatim>\<open>False\<close> and the
  cursors stay as they were. In (d) the cursors stay as they were.
\<close>

theorem sync_frequency_priority:
  assumes rig_read: "get_frequency e (fs_rig s) w = (Some rf, w1)"
    and sdr_read: "sdr_get_frequency e (fs_sdr s) w1 = (Some sf, sd, w2)"
    and mode_read: "get_mode e (fs_rig s) w2 = (Some rm, w3)"
    and cycle: "sync_once e s w = (ok, s', w')"
  shows "(rf \<noteq> last_rig_frequency s \<and> sf \<noteq> last_sdr_frequency s \<longrightarrow>
            frequency_writes (trace w') = frequency_writes (trace w) @ [Display (Sdr_F rf)]
            \<and> rig_writes (trace w') = rig_writes (trace w)
            \<and> gateway_calls (trace w') =
                gateway_calls (trace w) @ [Invoke Call_get_frequency, Invoke Call_get_mode]
            \<and> (if fst (sdr_set_frequency e (fs_sdr s) rf w3)
               then last_rig_frequency s' = rf \<and> last_sdr_frequency s' = rf
               else \<not> ok \<and> last_rig_frequency s' = last_rig_frequency s
                    \<and> last_sdr_frequency s' = last_sdr_frequency s))
       \<and> (rf \<noteq> last_rig_frequency s \<and> sf = last_sdr_frequency s \<longrightarrow>
            frequency_writes (trace w') = frequency_writes (trace w) @ [Display (Sdr_F rf)]
            \<and> rig_writes (trace w') = rig_writes (trace w)
            \<and> gateway_calls (trace w') =
                gateway_calls (trace w) @ [Invoke Call_get_frequency, Invoke Call_get_mode]
            \<and> (if fst (sdr_set_frequency e (fs_sdr s) rf w3)
               then last_rig_frequency s' = rf \<and> last_sdr_frequency s' = rf
               else \<not> ok \<and> last_rig_frequency s' = last_rig_frequency s
                    \<and> last_sdr_frequency s' = last_sdr_frequency s))
       \<and> (rf = last_rig_frequency s \<and> sf \<noteq> last_sdr_frequency s \<longrightarrow>
            gateway_calls (trace w') =
              gateway_calls (trace w) @
              [Invoke Call_get_frequency, Invoke Call_get_mode, Invoke (Call_set_frequency sf)]
            \<and> frequency_writes (trace w') =
                frequency_writes (trace w) @
                (if float_overflows sf then []
                 else [Request (Set_vfo sf) (next_start w3) True])
            \<and> rig_writes (trace w') =
                rig_writes (trace w) @
                (if float_overflows sf then []
                 else [Request (Set_vfo sf) (next_start w3) True])
            \<and> (if float_overflows sf then \<not> fst (set_frequency e (fs_rig s) sf w3) else True)
            \<and> (if fst (set_frequency e (fs_rig s) sf w3)
               then last_rig_frequency s' = sf \<and> last_sdr_frequency s' = sf
               else \<not> ok \<and> last_rig_frequency s' = last_rig_frequency s
                    \<and> last_sdr_frequency s' = last_sdr_frequency s))
       \<and> (rf = last_rig_frequency s \<and> sf = last_sdr_frequency s \<longrightarrow>
            frequency_writes (trace w') = frequency_writes (trace w)
            \<and> rig_writes (trace w') = rig_writes (trace w)
            \<and> gateway_calls (trace w') =
                gateway_calls (trace w) @ [Invoke Call_get_frequency, Invoke Call_get_mode]
            \<and> last_rig_frequency s' = last_rig_frequency s
            \<and> last_sdr_frequency s' = last_sdr_frequency s)"
proof -
  from rig_read have rc: "is_connected (fs_rig s)"
    by (rule get_frequency_Some)
  from sdr_read have sc: "sdr_is_connected (fs_sdr s)" and sd: "sd = fs_sdr s"
    by (auto dest: sdr_get_frequency_Some)
  note rd = reads_frequency_writes [OF rig_read sdr_read mode_read]
  have fw: "\<And>xs. frequency_writes (trace w3 @ xs) = frequency_writes (trace w) @ frequency_writes xs"
    using rd(1) by (simp add: frequency_writes_def)
  have rw: "\<And>xs. rig_writes (trace w3 @ xs) = rig_writes (trace w) @ rig_writes xs"
    using rd(3) by (simp add: rig_writes_def)
  have gc: "\<And>xs. gateway_calls (trace w3 @ xs) =
      gateway_calls (trace w) @ [Invoke Call_get_frequency, Invoke Call_get_mode] @
      gateway_calls xs"
    using rd(4) by (simp add: gateway_calls_def)
  have ev: "frequency_writes [] = []" "rig_writes [] = []" "gateway_calls [] = []"
    "\<And>f. frequency_writes [Display (Sdr_F f)] = [Display (Sdr_F f)]"
    "\<And>f. rig_writes [Display (Sdr_F f)] = []"
    "\<And>f. gateway_calls [Display (Sdr_F f)] = []"
    "\<And>f m. frequency_writes [Display (Sdr_F f), Display (Sdr_M m)] = [Display (Sdr_F f)]"
    "\<And>f m. rig_writes [Display (Sdr_F f), Display (Sdr_M m)] = []"
    "\<And>f m. gateway_calls [Display (Sdr_F f), Display (Sdr_M m)] = []"
    "\<And>m. frequency_writes [Display (Sdr_M m)] = []"
    "\<And>m. rig_writes [Display (Sdr_M m)] = []"
    "\<And>m. gateway_calls [Display (Sdr_M m)] = []"
    by (simp_all add: frequency_writes_def rig_writes_def gateway_calls_def)
  have evr:
    "\<And>f t xs. frequency_writes (Invoke (Call_set_frequency f) # xs) = frequency_writes xs"
    "\<And>f t xs. rig_writes (Invoke (Call_set_frequency f) # xs) = rig_writes xs"
    "\<And>f t xs. gateway_calls (Invoke (Call_set_frequency f) # xs) =
        Invoke (Call_set_frequency f) # gateway_calls xs"
    "\<And>f t xs. frequency_writes (Request (Set_vfo f) t True # xs) =
        Request (Set_vfo f) t True # frequency_writes xs"
    "\<And>f t xs. rig_writes (Request (Set_vfo f) t True # xs) =
        Request (Set_vfo f) t True # rig_writes xs"
    "\<And>f t xs. gateway_calls (Request (Set_vfo f) t True # xs) = gateway_calls xs"
    by (simp_all add: frequency_writes_def rig_writes_def gateway_calls_def)
  have res: "sync_resolve e s (Some rf) (Some sf) (Some rm) w3 = (ok, s', w')"
    using sync_once_reads [OF rig_read sdr_read mode_read] cycle sd by simp
  show ?thesis
  proof (cases "rf = last_rig_frequency s")
    case False
    from sync_after_display_push [OF res False] sc
    have sh: "trace w' = trace w3 @ [Display (Sdr_F rf)]
              \<or> trace w' = trace w3 @ [Display (Sdr_F rf), Display (Sdr_M rm)]"
      and cu: "if fst (sdr_set_frequency e (fs_sdr s) rf w3)
            then last_rig_frequency s' = rf \<and> last_sdr_frequency s' = rf
            else \<not> ok \<and> last_rig_frequency s' = last_rig_frequency s
                 \<and> last_sdr_frequency s' = last_sdr_frequency s"
      by simp_all
    from sh have "frequency_writes (trace w') = frequency_writes (trace w) @ [Display (Sdr_F rf)]
            \<and> rig_writes (trace w') = rig_writes (trace w)
            \<and> gateway_calls (trace w') =
                gateway_calls (trace w) @ [Invoke Call_get_frequency, Invoke Call_get_mode]"
      by (auto simp add: fw rw gc ev)
    with cu False show ?thesis by simp
  next
    case True
    show ?thesis
    proof (cases "sf = last_sdr_frequency s")
      case False
      let ?R = "Invoke (Call_set_frequency sf) #
                (if float_overflows sf then [] else [Request (Set_vfo sf) (next_start w3) True])"
      from sync_after_rig_push [OF res True False] rc
      have sh: "trace w' = trace w3 @ ?R \<or> trace w' = trace w3 @ ?R @ [Display (Sdr_M rm)]"
        and cu: "if fst (set_frequency e (fs_rig s) sf w3)
            then last_rig_frequency s' = sf \<and> last_sdr_frequency s' = sf
            else \<not> ok \<and> last_rig_frequency s' = last_rig_frequency s
                 \<and> last_sdr_frequency s' = last_sdr_frequency s"
        by (simp_all split: if_splits)
      from sh have pr: "gateway_calls (trace w') =
              gateway_calls (trace w) @
              [Invoke Call_get_frequency, Invoke Call_get_mode, Invoke (Call_set_frequency sf)]
            \<and> frequency_writes (trace w') =
                frequency_writes (trace w) @
                (if float_overflows sf then []
                 else [Request (Set_vfo sf) (next_start w3) True])
            \<and> rig_writes (trace w') =
                rig_writes (trace w) @
                (if float_overflows sf then []
                 else [Request (Set_vfo sf) (next_start w3) True])"
        by (auto simp add: fw rw gc ev evr)
      have ov: "if float_overflows sf then \<not> fst (set_frequency e (fs_rig s) sf w3) else True"
        by (simp add: set_frequency_overflow)
      from pr ov cu True False show ?thesis by simp
    next
      case sf_same: True
      from sync_after_no_change [OF res True] sf_same
      have sh: "trace w' = trace w3 \<or> trace w' = trace w3 @ [Display (Sdr_M rm)]"
        and cu: "last_rig_frequency s' = last_rig_frequency s"
          "last_sdr_frequency s' = last_sdr_frequency s"
        by simp_all
      from sh have "frequency_writes (trace w') = frequency_writes (trace w)
            \<and> rig_writes (trace w') = rig_writes (trace w)
            \<and> gateway_calls (trace w') =
                gateway_calls (trace w) @ [Invoke Call_get_frequency, Invoke Call_get_mode]"
        using fw [of "[]"] rw [of "[]"] gc [of "[]"]
        by (auto simp add: fw rw gc ev)
      with cu True sf_same show ?thesis by simp
    qed
  qed
qed

text \<open>
  Instances of the four cases, from cursors at 100 Hz: rig 300 and display 200; rig 300
  and display 100; rig 100 and display 200 (the rig accepts the write); rig 100 and
  display 100.
\<close>

theorem sync_frequency_priority_witness:
  "frequency_writes (trace (snd (snd
      (sync_once (sync_env (Some (XNum 300)) None (Some ''200'')) sync_state (world_at 50))))) =
     [Display (Sdr_F 300)]
   \<and> last_rig_frequency (fst (snd
      (sync_once (sync_env (Some (XNum 300)) None (Some ''200'')) sync_state (world_at 50)))) = 300
   \<and> last_sdr_frequency (fst (snd
      (sync_once (sync_env (Some (XNum 300)) None (Some ''200'')) sync_state (world_at 50)))) = 300
   \<and> frequency_writes (trace (snd (snd
      (sync_once (sync_env (Some (XNum 300)) None (Some ''100'')) sync_state (world_at 50))))) =
     [Display (Sdr_F 300)]
   \<and> rig_writes (trace (snd (snd
      (sync_once (sync_env (Some (XNum 300)) None (Some ''100'')) sync_state (world_at 50))))) =
     []
   \<and> frequency_writes (trace (snd (snd
      (sync_once (sync_env (Some (XNum 100)) (Some (XStr [])) (Some ''200'')) sync_state
         (world_at 50))))) =
     [Request (Set_vfo 200) 50.1 True]
   \<and> last_rig_frequency (fst (snd
      (sync_once (sync_env (Some (XNum 100)) (Some (XStr [])) (Some ''200'')) sync_state
         (world_at 50)))) = 200
   \<and> last_sdr_frequency (fst (snd
      (sync_once (sync_env (Some (XNum 100)) (Some (XStr [])) (Some ''200'')) sync_state
         (world_at 50)))) = 200
   \<and> frequency_writes (trace (snd (snd
      (sync_once (sync_env (Some (XNum 100)) None (Some ''100'')) sync_state (world_at 50))))) =
     []"
proof -
  let ?rig = "fs_rig sync_state" and ?sdr = "fs_sdr sync_state" and ?w = "world_at 50"
  have fw0: "frequency_writes (trace ?w) = []" "rig_writes (trace ?w) = []"
    by (simp_all add: frequency_writes_def rig_writes_def world_at_def)
  have cur: "last_rig_frequency sync_state = 100" "last_sdr_frequency sync_state = 100"
    by (simp_all add: sync_state_def)
  let ?ea = "sync_env (Some (XNum 300)) None (Some ''200'')"
  let ?wa1 = "snd (get_frequency ?ea ?rig ?w)"
  let ?wa2 = "snd (snd (sdr_get_frequency ?ea ?sdr ?wa1))"
  let ?wa3 = "snd (get_mode ?ea ?rig ?wa2)"
  have a: "fst (get_frequency ?ea ?rig ?w) = Some 300"
    "fst (sdr_get_frequency ?ea ?sdr ?wa1) = Some 200"
    "fst (get_mode ?ea ?rig ?wa2) = Some (XStr ''USB'')"
    by (simp_all add: sync_eval)
  have a_ok: "fst (sdr_set_frequency ?ea ?sdr 300 ?wa3)"
    by (simp add: sync_eval)
  let ?eb = "sync_env (Some (XNum 300)) None (Some ''100'')"
  let ?wb1 = "snd (get_frequency ?eb ?rig ?w)"
  let ?wb2 = "snd (snd (sdr_get_frequency ?eb ?sdr ?wb1))"
  have b: "fst (get_frequency ?eb ?rig ?w) = Some 300"
    "fst (sdr_get_frequency ?eb ?sdr ?wb1) = Some 100"
    "fst (get_mode ?eb ?rig ?wb2) = Some (XStr ''USB'')"
    by (simp_all add: sync_eval)
  let ?ec = "sync_env (Some (XNum 100)) (Some (XStr [])) (Some ''200'')"
  let ?wc1 = "snd (get_frequency ?ec ?rig ?w)"
  let ?wc2 = "snd (snd (sdr_get_frequency ?ec ?sdr ?wc1))"
  let ?wc3 = "snd (get_mode ?ec ?rig ?wc2)"
  have c: "fst (get_frequency ?ec ?rig ?w) = Some 100"
    "fst (sdr_get_frequency ?ec ?sdr ?wc1) = Some 200"
    "fst (get_mode ?ec ?rig ?wc2) = Some (XStr ''USB'')"
    by (simp_all add: sync_eval)
  have c_ok: "fst (set_frequency ?ec ?rig 200 ?wc3)" and c_start: "next_start ?wc3 = 50.1"
    and c_fin: "\<not> float_overflows 200"
    by (simp_all add: sync_eval float_overflows_def)
  let ?ed = "sync_env (Some (XNum 100)) None (Some ''100'')"
  let ?wd1 = "snd (get_frequency ?ed ?rig ?w)"
  let ?wd2 = "snd (snd (sdr_get_frequency ?ed ?sdr ?wd1))"
  have d: "fst (get_frequency ?ed ?rig ?w) = Some 100"
    "fst (sdr_get_frequency ?ed ?sdr ?wd1) = Some 100"
    "fst (get_mode ?ed ?rig ?wd2) = Some (XStr ''USB'')"
    by (simp_all add: sync_eval)
  note ta = sync_frequency_priority [OF sync_case_premises [OF a]]
  note tb = sync_frequency_priority [OF sync_case_premises [OF b]]
  note tc = sync_frequency_priority [OF sync_case_premises [OF c]]
  note td = sync_frequency_priority [OF sync_case_premises [OF d]]
  from ta a_ok have ra:
    "frequency_writes (trace (snd (snd (sync_once ?ea sync_state ?w)))) = [Display (Sdr_F 300)]
     \<and> last_rig_frequency (fst (snd (sync_once ?ea sync_state ?w))) = 300
     \<and> last_sdr_frequency (fst (snd (sync_once ?ea sync_state ?w))) = 300"
    by (simp add: fw0 cur)
  from tb have rb:
    "frequency_writes (trace (snd (snd (sync_once ?eb sync_state ?w)))) = [Display (Sdr_F 300)]
     \<and> rig_writes (trace (snd (snd (sync_once ?eb sync_state ?w)))) = []"
    by (simp add: fw0 cur)
  from tc c_ok c_start c_fin have rc:
    "frequency_writes (trace (snd (snd (sync_once ?ec sync_state ?w)))) =
       [Request (Set_vfo 200) 50.1 True]
     \<and> last_rig_frequency (fst (snd (sync_once ?ec sync_state ?w))) = 200
     \<and> last_sdr_frequency (fst (snd (sync_once ?ec sync_state ?w))) = 200"
    by (simp add: fw0 cur)
  from td have rd:
    "frequency_writes (trace (snd (snd (sync_once ?ed sync_state ?w)))) = []"
    by (simp add: fw0 cur)
  from ra rb rc rd show ?thesis by simp
qed

text \<open>
  C7. Name the three reads of a cycle. If the rig frequency or the rig mode could not be
  read, the cycle returns \<^verbatim>\<open>False\<close> in the world the reads left, which holds no more
  writes than before, and the three cursors are unchanged. If both were read and the
  display frequency could not be, the cycle goes on exactly as if the display had
  returned its cursor \<^verbatim>\<open>last_sdr_frequency\<close>: nothing is written to the rig, and a
  changed rig frequency is still sent to the display, provided the display client is
  still connected (a socket error during the read disconnects it).
\<close>

theorem sync_read_failures:
  assumes rig_read: "get_frequency e (fs_rig s) w = (rfo, w1)"
    and sdr_read: "sdr_get_frequency e (fs_sdr s) w1 = (sfo, sd, w2)"
    and mode_read: "get_mode e (fs_rig s) w2 = (rmo, w3)"
  shows "(rfo = None \<or> rmo = None \<longrightarrow>
            sync_once e s w = (False, s\<lparr>fs_sdr := sd\<rparr>, w3)
            \<and> writes (trace w3) = writes (trace w)
            \<and> last_rig_frequency (fst (snd (sync_once e s w))) = last_rig_frequency s
            \<and> last_sdr_frequency (fst (snd (sync_once e s w))) = last_sdr_frequency s
            \<and> last_mode (fst (snd (sync_once e s w))) = last_mode s)
       \<and> (rfo = Some rf \<and> rmo = Some rm \<and> sfo = None \<longrightarrow>
            sync_once e s w =
              sync_resolve e (s\<lparr>fs_sdr := sd\<rparr>) (Some rf) (Some (last_sdr_frequency s))
                (Some rm) w3
            \<and> frequency_writes (trace (snd (snd (sync_once e s w)))) =
                frequency_writes (trace w) @
                (if rf \<noteq> last_rig_frequency s \<and> sdr_is_connected sd
                 then [Display (Sdr_F rf)] else []))"
proof -
  let ?s1 = "s\<lparr>fs_sdr := sd\<rparr>"
  have once: "sync_once e s w = sync_resolve e ?s1 rfo sfo rmo w3"
    using rig_read sdr_read mode_read by (rule sync_once_reads)
  have fw: "frequency_writes (trace w3) = frequency_writes (trace w)"
    using rig_read sdr_read mode_read by (rule reads_frequency_writes(1))
  have wr: "writes (trace w3) = writes (trace w)"
    using rig_read sdr_read mode_read by (rule reads_frequency_writes(2))
  have abort: "rfo = None \<or> rmo = None \<longrightarrow>
            sync_once e s w = (False, ?s1, w3)
            \<and> writes (trace w3) = writes (trace w)
            \<and> last_rig_frequency (fst (snd (sync_once e s w))) = last_rig_frequency s
            \<and> last_sdr_frequency (fst (snd (sync_once e s w))) = last_sdr_frequency s
            \<and> last_mode (fst (snd (sync_once e s w))) = last_mode s"
    using once wr by (auto simp add: sync_resolve_abort)
  have proceed: "rfo = Some rf \<and> rmo = Some rm \<and> sfo = None \<longrightarrow>
            sync_once e s w =
              sync_resolve e ?s1 (Some rf) (Some (last_sdr_frequency s)) (Some rm) w3
            \<and> frequency_writes (trace (snd (snd (sync_once e s w)))) =
                frequency_writes (trace w) @
                (if rf \<noteq> last_rig_frequency s \<and> sdr_is_connected sd
                 then [Display (Sdr_F rf)] else [])"
  proof
    assume h: "rfo = Some rf \<and> rmo = Some rm \<and> sfo = None"
    with once have o1: "sync_once e s w = sync_resolve e ?s1 (Some rf) None (Some rm) w3"
      by simp
    have o2: "sync_once e s w =
        sync_resolve e ?s1 (Some rf) (Some (last_sdr_frequency s)) (Some rm) w3"
      using o1 sync_resolve_substitute [of e ?s1 rf rm w3] by simp
    obtain ok s' w' where r: "sync_resolve e ?s1 (Some rf) None (Some rm) w3 = (ok, s', w')"
      by (cases "sync_resolve e ?s1 (Some rf) None (Some rm) w3") auto
    have "frequency_writes (trace w') =
            frequency_writes (trace w) @
            (if rf \<noteq> last_rig_frequency s \<and> sdr_is_connected sd
             then [Display (Sdr_F rf)] else [])"
    proof (cases "rf = last_rig_frequency s")
      case True
      then have "rf = last_rig_frequency ?s1" by simp
      from sync_after_no_change [OF r this] True fw show ?thesis
        by (auto simp add: frequency_writes_def)
    next
      case False
      then have "rf \<noteq> last_rig_frequency ?s1" by simp
      from sync_after_display_push [OF r this] False fw show ?thesis
        by (auto simp add: frequency_writes_def)
    qed
    with o1 o2 r show
      "sync_once e s w =
         sync_resolve e ?s1 (Some rf) (Some (last_sdr_frequency s)) (Some rm) w3
       \<and> frequency_writes (trace (snd (snd (sync_once e s w)))) =
           frequency_writes (trace w) @
           (if rf \<noteq> last_rig_frequency s \<and> sdr_is_connected sd
            then [Display (Sdr_F rf)] else [])"
      by simp
  qed
  from abort proceed show ?thesis by (rule conjI)
qed

text \<open>
  Instances: the endpoint raises on \<^verbatim>\<open>get_vfo\<close>; the display answers \<^verbatim>\<open>f\<close> with
  text that is no number while the rig reports 300 Hz against a cursor of 100 Hz.
\<close>

theorem sync_read_failures_witness:
  "sync_once (sync_env None None (Some ''200'')) sync_state (world_at 50) =
     (False, sync_state,
      \<lparr>clock = 50.05, last_request_time = 50.05,
       trace = [Invoke Call_get_frequency, Request Get_vfo 50 True, Display Sdr_f,
                Invoke Call_get_mode, Request Get_mode 50.05 True]\<rparr>)
   \<and> writes [Invoke Call_get_frequency, Request Get_vfo 50 True, Display Sdr_f,
              Invoke Call_get_mode, Request Get_mode 50.05 True] = []
   \<and> fst (sdr_get_frequency (sync_env (Some (XNum 300)) None (Some ''?'')) (fs_sdr sync_state)
        (snd (get_frequency (sync_env (Some (XNum 300)) None (Some ''?'')) (fs_rig sync_state)
           (world_at 50)))) = None
   \<and> frequency_writes (trace (snd (snd
        (sync_once (sync_env (Some (XNum 300)) None (Some ''?'')) sync_state (world_at 50))))) =
       [Display (Sdr_F 300)]"
proof -
  let ?rig = "fs_rig sync_state" and ?sdr = "fs_sdr sync_state" and ?w = "world_at 50"
  let ?ea = "sync_env None None (Some ''200'')"
  let ?wa1 = "snd (get_frequency ?ea ?rig ?w)"
  let ?wa2 = "snd (snd (sdr_get_frequency ?ea ?sdr ?wa1))"
  have a: "fst (get_frequency ?ea ?rig ?w) = None"
    by (simp add: sync_eval)
  have a_sd: "sync_state\<lparr>fs_sdr := fst (snd (sdr_get_frequency ?ea ?sdr ?wa1))\<rparr> = sync_state"
    by (simp add: sync_eval)
  have a_w: "snd (get_mode ?ea ?rig ?wa2) =
      \<lparr>clock = 50.05, last_request_time = 50.05,
       trace = [Invoke Call_get_frequency, Request Get_vfo 50 True, Display Sdr_f,
                Invoke Call_get_mode, Request Get_mode 50.05 True]\<rparr>"
    by (simp add: sync_eval)
  have a_wr: "writes [Invoke Call_get_frequency, Request Get_vfo 50 True, Display Sdr_f,
              Invoke Call_get_mode, Request Get_mode 50.05 True] = []"
    by (simp add: writes_def)
  let ?eb = "sync_env (Some (XNum 300)) None (Some ''?'')"
  let ?wb1 = "snd (get_frequency ?eb ?rig ?w)"
  let ?wb2 = "snd (snd (sdr_get_frequency ?eb ?sdr ?wb1))"
  have b: "fst (get_frequency ?eb ?rig ?w) = Some 300"
    "fst (sdr_get_frequency ?eb ?sdr ?wb1) = None"
    "fst (get_mode ?eb ?rig ?wb2) = Some (XStr ''USB'')"
    "sdr_is_connected (fst (snd (sdr_get_frequency ?eb ?sdr ?wb1)))"
    "last_rig_frequency sync_state = 100"
    "frequency_writes (trace ?w) = []"
    by (simp_all add: sync_eval frequency_writes_def)
  note ta = sync_read_failures [OF sync_reads_named, of ?ea sync_state ?w, THEN conjunct1]
  note tb = sync_read_failures [OF sync_reads_named, of ?eb sync_state ?w 300 "XStr ''USB''",
      THEN conjunct2]
  from ta a have ra: "sync_once ?ea sync_state ?w =
     (False, sync_state,
      \<lparr>clock = 50.05, last_request_time = 50.05,
       trace = [Invoke Call_get_frequency, Request Get_vfo 50 True, Display Sdr_f,
                Invoke Call_get_mode, Request Get_mode 50.05 True]\<rparr>)"
    by (simp add: a_sd a_w)
  from tb [THEN mp, OF conjI [OF b(1) conjI [OF b(3) b(2)]], THEN conjunct2] b(4-6)
  have rb: "frequency_writes (trace (snd (snd (sync_once ?eb sync_state ?w)))) =
       [Display (Sdr_F 300)]"
    by simp
  from ra a_wr b(2) rb show ?thesis by simp
qed

end
